theory Spec2Isabelle
  imports Complex_Main "HOL-Library.Sublist" "HOL-Library.Log_Nat"
begin

section \<open>Parsed JSON records\<close>

text \<open>
  The agents work on the result of \<^verbatim>\<open>json.loads\<close>: a Python value built from
  \<^verbatim>\<open>None\<close>, \<^verbatim>\<open>bool\<close>, \<^verbatim>\<open>int\<close>, \<^verbatim>\<open>float\<close>, \<^verbatim>\<open>str\<close>, \<^verbatim>\<open>list\<close> and \<^verbatim>\<open>dict\<close>.
  A \<^verbatim>\<open>dict\<close> is an association list in insertion order whose keys are distinct; a lookup
  reads the first binding of the key. Python's \<^verbatim>\<open>int\<close> is unbounded (\<open>int\<close>); a Python
  \<^verbatim>\<open>float\<close> is read as the real number it stands for. The conversion \<^verbatim>\<open>float(n)\<close> of an
  integer is modelled as Python performs it (\<open>float_of_int\<close> below: rounded to 53 significant
  bits, \<^verbatim>\<open>OverflowError\<close> beyond the range of a double). The arithmetic on floats is exact
  here, where Python and numpy round every operation, and infinities and not-a-number values
  are not represented: a decision of the source that hangs on the last bit of a float, such
  as \<^verbatim>\<open>abs(amount - mean) > threshold * std\<close> at equality of the exact values, can differ.
\<close>

datatype json =
    JNull
  | JBool bool
  | JInt int
  | JFloat real
  | JStr string
  | JArr "json list"
  | JObj "(string \<times> json) list"

type_synonym data = "(string \<times> json) list"

text \<open>\<^verbatim>\<open>field in data\<close> and \<^verbatim>\<open>data[field]\<close> together: \<open>None\<close> when the key is absent.\<close>

definition lookup :: "data \<Rightarrow> string \<Rightarrow> json option" where
  "lookup d field = map_of d field"

text \<open>
  \<^verbatim>\<open>isinstance(v, (int, float))\<close>, \<^verbatim>\<open>isinstance(v, int)\<close>, \<^verbatim>\<open>isinstance(v, str)\<close> and
  \<^verbatim>\<open>isinstance(v, bool)\<close>. In Python \<^verbatim>\<open>bool\<close> is a subclass of \<^verbatim>\<open>int\<close>, so \<^verbatim>\<open>True\<close> and
  \<^verbatim>\<open>False\<close> pass the two numeric tests.
\<close>

fun isinstance_number :: "json \<Rightarrow> bool" where
  "isinstance_number (JInt n) = True"
| "isinstance_number (JFloat x) = True"
| "isinstance_number (JBool b) = True"
| "isinstance_number v = False"

fun isinstance_int :: "json \<Rightarrow> bool" where
  "isinstance_int (JInt n) = True"
| "isinstance_int (JBool b) = True"
| "isinstance_int v = False"

fun isinstance_str :: "json \<Rightarrow> bool" where
  "isinstance_str (JStr s) = True"
| "isinstance_str v = False"

fun isinstance_bool :: "json \<Rightarrow> bool" where
  "isinstance_bool (JBool b) = True"
| "isinstance_bool v = False"

section \<open>Exceptions\<close>

datatype exn =
    AttributeError string
  | TypeError string
  | ValueError string
  | OverflowError string
  | ValidationError string
  | ConnectionError string
  | HandlerError string

text \<open>\<^verbatim>\<open>str(e)\<close>: the message of the exception.\<close>

fun str_exn :: "exn \<Rightarrow> string" where
  "str_exn (AttributeError m) = m"
| "str_exn (TypeError m) = m"
| "str_exn (ValueError m) = m"
| "str_exn (OverflowError m) = m"
| "str_exn (ValidationError m) = m"
| "str_exn (ConnectionError m) = m"
| "str_exn (HandlerError m) = m"

text \<open>\<^verbatim>\<open>type(v).__name__\<close> for a parsed JSON value.\<close>

fun type_name :: "json \<Rightarrow> string" where
  "type_name JNull = ''NoneType''"
| "type_name (JBool b) = ''bool''"
| "type_name (JInt n) = ''int''"
| "type_name (JFloat x) = ''float''"
| "type_name (JStr s) = ''str''"
| "type_name (JArr xs) = ''list''"
| "type_name (JObj kvs) = ''dict''"

text \<open>
  The message of the \<^verbatim>\<open>AttributeError\<close> that reading a missing attribute raises:
  \<^verbatim>\<open>'int' object has no attribute 'replace'\<close>.
\<close>

definition quoted :: "string \<Rightarrow> string" where
  "quoted s = CHR 0x27 # s @ [CHR 0x27]"

definition no_attribute :: "string \<Rightarrow> string \<Rightarrow> exn" where
  "no_attribute tname attr =
     AttributeError (quoted tname @ '' object has no attribute '' @ quoted attr)"

section \<open>Conversion to float\<close>

text \<open>
  \<^verbatim>\<open>float(n)\<close> for a Python \<^verbatim>\<open>int\<close>. An integer of at most 53 bits is a double; a longer
  one is rounded to the nearest double, which keeps its 53 leading bits and rounds the rest
  half to even. The largest double is \<^verbatim>\<open>2**1024 - 2**971\<close>; an integer that would round
  above it, which is one of magnitude \<^verbatim>\<open>2**1024 - 2**970\<close> or more, raises
  \<^verbatim>\<open>OverflowError\<close>.
\<close>

definition round_to_double :: "int \<Rightarrow> int" where
  "round_to_double m =
     (let shift = nat (bitlen m - 53);
          q = m div 2 ^ shift;
          r = m mod 2 ^ shift
      in if shift = 0 then m
         else if 2 * r > 2 ^ shift \<or> (2 * r = 2 ^ shift \<and> odd q) then (q + 1) * 2 ^ shift
         else q * 2 ^ shift)"

definition double_limit :: int where
  "double_limit = 2 ^ 1024 - 2 ^ 970"

definition float_of_int :: "int \<Rightarrow> exn + real" where
  "float_of_int n =
     (if \<bar>n\<bar> \<ge> double_limit then Inl (OverflowError ''int too large to convert to float'')
      else Inr (of_int (sgn n * round_to_double \<bar>n\<bar>)))"

text \<open>
  \<^verbatim>\<open>float(v)\<close>, which the source only calls under the guard
  \<^verbatim>\<open>isinstance(v, (int, float))\<close>: the conversion of an integer, the float itself, and 1.0
  or 0.0 for a \<^verbatim>\<open>bool\<close>. The other values, which the guard keeps away, give \<open>None\<close>.
\<close>

fun py_float :: "json \<Rightarrow> (exn + real) option" where
  "py_float (JInt n) = Some (float_of_int n)"
| "py_float (JFloat x) = Some (Inr x)"
| "py_float (JBool b) = Some (Inr (if b then 1 else 0))"
| "py_float v = None"

text \<open>
  The guard \<^verbatim>\<open>field in data and isinstance(data[field], (int, float))\<close> followed by
  \<^verbatim>\<open>float(data[field])\<close>, as both \<^verbatim>\<open>_check_amount_anomaly\<close> and
  \<^verbatim>\<open>_update_historical_data\<close> write it: \<open>None\<close> when the guard fails, otherwise the float
  or the exception of the conversion.
\<close>

definition numeric_field :: "data \<Rightarrow> string \<Rightarrow> (exn + real) option" where
  "numeric_field d field =
     (case lookup d field of
        None \<Rightarrow> None
      | Some v \<Rightarrow> if isinstance_number v then py_float v else None)"

section \<open>Strings\<close>

text \<open>
  Strings are byte strings here; \<^verbatim>\<open>str.lower\<close> is modelled on the ASCII letters, which is
  all that the fixed deny-lists of the source contain.
\<close>

definition lower_char :: "char \<Rightarrow> char" where
  "lower_char c =
     (let n = (of_char c :: nat) in if 65 \<le> n \<and> n \<le> 90 then char_of (n + 32) else c)"

definition lower :: "string \<Rightarrow> string" where
  "lower s = map lower_char s"

text \<open>\<^verbatim>\<open>pattern in value\<close> on strings: \<open>pattern\<close> occurs as a contiguous part of \<open>value\<close>.\<close>

fun contains :: "string \<Rightarrow> string \<Rightarrow> bool" where
  "contains [] p = (p = [])"
| "contains (c # cs) p = (prefix p (c # cs) \<or> contains cs p)"

text \<open>\<^verbatim>\<open>s.replace('Z', '+00:00')\<close>.\<close>

definition replace_Z :: "string \<Rightarrow> string" where
  "replace_Z s = concat (map (\<lambda>c. if c = CHR ''Z'' then ''+00:00'' else [c]) s)"

section \<open>Timestamps\<close>

text \<open>
  A \<^verbatim>\<open>datetime\<close> is its instant in microseconds together with the flag that tells an
  offset-aware value from a naive one: Python refuses to subtract one from the other
  (\<^verbatim>\<open>TypeError\<close>). \<^verbatim>\<open>datetime.fromisoformat\<close> is a library function; it is a parameter
  \<open>parse_iso\<close> of the model, with \<open>None\<close> for its \<^verbatim>\<open>ValueError\<close>.
\<close>

record datetime =
  tz_aware :: bool
  micros :: int

type_synonym isoparser = "string \<Rightarrow> datetime option"

section \<open>The JSON agent: state and configuration\<close>

text \<open>
  \<^verbatim>\<open>self.historical_data\<close> is a \<^verbatim>\<open>defaultdict(list)\<close> keyed by
  \<^verbatim>\<open>f"{schema_type}_amounts"\<close> and \<^verbatim>\<open>f"{schema_type}_timestamps"\<close>. No key of the first
  form is one of the second (lemma \<open>history_keys_disjoint\<close>), so the dictionary is kept as
  two total maps, one holding the lists of amounts and one the lists of timestamps; a key
  never written holds the empty list.
\<close>

record JSONAgent =
  historical_amounts :: "string \<Rightarrow> real list"
  historical_timestamps :: "string \<Rightarrow> datetime list"

definition new_JSONAgent :: JSONAgent where
  "new_JSONAgent = \<lparr>historical_amounts = (\<lambda>k. []), historical_timestamps = (\<lambda>k. [])\<rparr>"

definition amounts_key :: "string \<Rightarrow> string" where
  "amounts_key schema_type = schema_type @ ''_amounts''"

definition timestamps_key :: "string \<Rightarrow> string" where
  "timestamps_key schema_type = schema_type @ ''_timestamps''"

definition anomaly_threshold :: real where
  "anomaly_threshold = 0.8"

definition threshold_multiplier :: real where
  "threshold_multiplier = 3.0"

definition min_samples :: nat where
  "min_samples = 10"

definition rapid_succession :: nat where
  "rapid_succession = 5"

definition time_window_minutes :: int where
  "time_window_minutes = 5"

definition null_percentage_threshold :: real where
  "null_percentage_threshold = 0.3"

definition amount_fields :: "string list" where
  "amount_fields = [''amount'', ''total'', ''value'', ''price'']"

section \<open>The four sub-detectors\<close>

text \<open>What a sub-detector returns when it fires: \<^verbatim>\<open>{"anomalies": [...], "score": s}\<close>.\<close>

record finding =
  anomalies :: "string list"
  score :: real

text \<open>
  \<^verbatim>\<open>np.mean\<close> and \<^verbatim>\<open>np.std\<close> (the population standard deviation), as the exact real
  numbers: numpy returns the doubles next to them.
\<close>

definition np_mean :: "real list \<Rightarrow> real" where
  "np_mean xs = sum_list xs / real (length xs)"

definition np_std :: "real list \<Rightarrow> real" where
  "np_std xs = sqrt (sum_list (map (\<lambda>x. (x - np_mean xs)\<^sup>2) xs) / real (length xs))"

text \<open>
  \<^verbatim>\<open>min(abs(amount - mean) / (threshold * std), 1.0)\<close>. The operands are numpy floats, so a
  zero divisor gives infinity and the minimum is 1.0; HOL's \<open>x / 0 = 0\<close> would not.
\<close>

definition amount_score :: "real \<Rightarrow> real \<Rightarrow> real \<Rightarrow> real" where
  "amount_score amount mean_amount std_amount =
     (if threshold_multiplier * std_amount = 0 then 1
      else min (\<bar>amount - mean_amount\<bar> / (threshold_multiplier * std_amount)) 1)"

text \<open>
  The loop of \<^verbatim>\<open>_check_amount_anomaly\<close> over the amount fields still to visit.
  \<^verbatim>\<open>amount = float(data[field])\<close> is the first statement of the loop body, ahead of the test
  on the number of samples and outside any \<^verbatim>\<open>try\<close>: its \<^verbatim>\<open>OverflowError\<close> ends the call.
\<close>

fun check_amount_fields ::
  "JSONAgent \<Rightarrow> data \<Rightarrow> string \<Rightarrow> string list \<Rightarrow> exn + finding option" where
  "check_amount_fields agent d schema_type [] = Inr None"
| "check_amount_fields agent d schema_type (field # rest) =
     (case numeric_field d field of
        None \<Rightarrow> check_amount_fields agent d schema_type rest
      | Some (Inl e) \<Rightarrow> Inl e
      | Some (Inr amount) \<Rightarrow>
          (let historical = historical_amounts agent (amounts_key schema_type) in
           if length historical \<ge> min_samples then
             (let mean_amount = np_mean historical; std_amount = np_std historical in
              if \<bar>amount - mean_amount\<bar> > threshold_multiplier * std_amount
              then Inr (Some \<lparr>anomalies = [''unusual_'' @ field @ ''_amount''],
                              score = amount_score amount mean_amount std_amount\<rparr>)
              else check_amount_fields agent d schema_type rest)
           else check_amount_fields agent d schema_type rest))"

definition check_amount_anomaly ::
  "JSONAgent \<Rightarrow> data \<Rightarrow> string \<Rightarrow> exn + finding option" where
  "check_amount_anomaly agent d schema_type =
     check_amount_fields agent d schema_type amount_fields"

definition invalid_timestamp :: finding where
  "invalid_timestamp = \<lparr>anomalies = [''invalid_timestamp_format''], score = 0.5\<rparr>"

text \<open>\<^verbatim>\<open>timedelta(minutes=...)\<close> in microseconds.\<close>

definition time_window :: int where
  "time_window = time_window_minutes * 60 * 1000000"

text \<open>
  \<^verbatim>\<open>_check_pattern_anomaly\<close>. Inside the \<^verbatim>\<open>try\<close>, \<^verbatim>\<open>data["timestamp"].replace(...)\<close> exists
  for a string only: every other JSON value raises \<^verbatim>\<open>AttributeError\<close>, which
  \<^verbatim>\<open>except (ValueError, TypeError)\<close> does not catch. A string that
  \<^verbatim>\<open>fromisoformat\<close> rejects (\<^verbatim>\<open>ValueError\<close>) and a stored timestamp that cannot be
  subtracted from the current one (\<^verbatim>\<open>TypeError\<close>) are caught.
\<close>

definition check_pattern_anomaly ::
  "isoparser \<Rightarrow> JSONAgent \<Rightarrow> data \<Rightarrow> string \<Rightarrow> exn + finding option" where
  "check_pattern_anomaly parse_iso agent d schema_type =
     (case lookup d ''timestamp'' of
        None \<Rightarrow> Inr None
      | Some (JStr s) \<Rightarrow>
          (case parse_iso (replace_Z s) of
             None \<Rightarrow> Inr (Some invalid_timestamp)
           | Some current_time \<Rightarrow>
               (let recent_events = historical_timestamps agent (timestamps_key schema_type) in
                if list_ex (\<lambda>ts. tz_aware ts \<noteq> tz_aware current_time) recent_events
                then Inr (Some invalid_timestamp)
                else
                  (let recent_count =
                         length (filter (\<lambda>ts. micros current_time - micros ts < time_window)
                                   recent_events) in
                   if recent_count \<ge> rapid_succession
                   then Inr (Some \<lparr>anomalies = [''rapid_succession_events''],
                                    score = min (real recent_count / 10) 1\<rparr>)
                   else Inr None)))
      | Some v \<Rightarrow> Inl (no_attribute (type_name v) ''replace''))"

definition sql_patterns :: "string list" where
  "sql_patterns = [''select '', ''drop '', ''insert '', ''delete '', ''update '', ''union '']"

definition script_patterns :: "string list" where
  "script_patterns = [''<script'', ''javascript:'', ''eval('', ''alert('']"

text \<open>\<^verbatim>\<open>value is None or value == ""\<close>.\<close>

fun is_null_value :: "json \<Rightarrow> bool" where
  "is_null_value JNull = True"
| "is_null_value (JStr s) = (s = [])"
| "is_null_value v = False"

text \<open>
  The second loop of \<^verbatim>\<open>_check_data_quality\<close>, over the items of the record, with the
  list of anomalies and the running maximum as accumulator.
\<close>

fun scan_strings :: "data \<Rightarrow> string list \<times> real \<Rightarrow> string list \<times> real" where
  "scan_strings [] acc = acc"
| "scan_strings ((key, JStr s) # rest) (found, max_score) =
     (let (found1, max1) =
            (if list_ex (contains (lower s)) sql_patterns
             then (found @ [''potential_sql_injection''], max max_score 0.9)
             else (found, max_score));
          (found2, max2) =
            (if list_ex (contains (lower s)) script_patterns
             then (found1 @ [''potential_script_injection''], max max1 0.9)
             else (found1, max1))
      in scan_strings rest (found2, max2))"
| "scan_strings ((key, v) # rest) acc = scan_strings rest acc"

definition check_data_quality :: "data \<Rightarrow> finding option" where
  "check_data_quality d =
     (let total_fields = length d;
          null_fields = length (filter (\<lambda>(key, v). is_null_value v) d);
          null_percentage = real null_fields / real total_fields;
          start =
            (if total_fields > 0 \<and> null_percentage > null_percentage_threshold
             then ([''excessive_null_values''], max 0 null_percentage)
             else ([], 0));
          (found, max_score) = scan_strings d start
      in if found \<noteq> [] then Some \<lparr>anomalies = found, score = max_score\<rparr> else None)"

definition expected_types :: "(string \<times> (json \<Rightarrow> bool)) list" where
  "expected_types =
     [(''id'', isinstance_str), (''user_id'', isinstance_str),
      (''amount'', isinstance_number), (''timestamp'', isinstance_str),
      (''count'', isinstance_int), (''active'', isinstance_bool),
      (''email'', isinstance_str)]"

definition type_mismatch :: "data \<Rightarrow> string \<times> (json \<Rightarrow> bool) \<Rightarrow> bool" where
  "type_mismatch d entry =
     (case lookup d (fst entry) of None \<Rightarrow> False | Some v \<Rightarrow> \<not> snd entry v)"

definition check_type_anomalies :: "data \<Rightarrow> finding option" where
  "check_type_anomalies d =
     (let found = map (\<lambda>entry. ''unexpected_type_'' @ fst entry)
                    (filter (type_mismatch d) expected_types)
      in if found \<noteq> [] then Some \<lparr>anomalies = found, score = real (length found) * 0.2\<rparr>
         else None)"

section \<open>Combining the sub-detectors\<close>

text \<open>The dictionary that \<^verbatim>\<open>_detect_anomalies\<close> returns.\<close>

record anomaly_report =
  is_normal :: bool
  report_anomalies :: "string list"
  anomaly_score :: real

text \<open>
  One step of \<^verbatim>\<open>_detect_anomalies\<close>: \<^verbatim>\<open>if r: anomalies.extend(r["anomalies"]);
  anomaly_score = max(anomaly_score, r["score"])\<close>.
\<close>

fun absorb :: "string list \<times> real \<Rightarrow> finding option \<Rightarrow> string list \<times> real" where
  "absorb (found, s) None = (found, s)"
| "absorb (found, s) (Some r) = (found @ anomalies r, max s (score r))"

definition detect_anomalies ::
  "isoparser \<Rightarrow> JSONAgent \<Rightarrow> data \<Rightarrow> string \<Rightarrow> exn + anomaly_report" where
  "detect_anomalies parse_iso agent d schema_type =
     (case check_amount_anomaly agent d schema_type of
        Inl e \<Rightarrow> Inl e
      | Inr amount_anomaly \<Rightarrow>
          (let acc1 = absorb ([], 0) amount_anomaly in
           case check_pattern_anomaly parse_iso agent d schema_type of
             Inl e \<Rightarrow> Inl e
           | Inr pattern_anomaly \<Rightarrow>
               (let acc2 = absorb acc1 pattern_anomaly;
                    acc3 = absorb acc2 (check_data_quality d);
                    (found, s) = absorb acc3 (check_type_anomalies d)
                in Inr \<lparr>is_normal = s < anomaly_threshold,
                         report_anomalies = found,
                         anomaly_score = min s 1\<rparr>)))"

text \<open>The sub-scores of the sub-detectors that fired.\<close>

definition fired_scores :: "finding option list \<Rightarrow> real list" where
  "fired_scores rs = map score (List.map_filter id rs)"

text \<open>The tags a sub-detector contributes to the report.\<close>

definition tags_of :: "finding option \<Rightarrow> string list" where
  "tags_of r = (case r of None \<Rightarrow> [] | Some f \<Rightarrow> anomalies f)"

section \<open>Schema validation\<close>

text \<open>
  What \<^verbatim>\<open>jsonschema.validate\<close> does: it returns, raises \<^verbatim>\<open>ValidationError\<close> or raises
  another exception, each with its message.
\<close>

datatype schema_outcome = SchemaOk | SchemaInvalid string | SchemaCrash string

datatype ActionType =
    ESCALATE | LOG_AND_CLOSE | FLAG_ANOMALY | COMPLIANCE_ALERT | RISK_ALERT | CREATE_TICKET

datatype UrgencyLevel = LOW | MEDIUM | HIGH | CRITICAL

text \<open>The values of the two enumerations.\<close>

fun action_type_value :: "ActionType \<Rightarrow> string" where
  "action_type_value ESCALATE = ''escalate''"
| "action_type_value LOG_AND_CLOSE = ''log_and_close''"
| "action_type_value FLAG_ANOMALY = ''flag_anomaly''"
| "action_type_value COMPLIANCE_ALERT = ''compliance_alert''"
| "action_type_value RISK_ALERT = ''risk_alert''"
| "action_type_value CREATE_TICKET = ''create_ticket''"

text \<open>The qualified name of a member, which \<^verbatim>\<open>str\<close> and an f-string give from Python 3.11 on.\<close>

fun action_type_name :: "ActionType \<Rightarrow> string" where
  "action_type_name ESCALATE = ''ActionType.ESCALATE''"
| "action_type_name LOG_AND_CLOSE = ''ActionType.LOG_AND_CLOSE''"
| "action_type_name FLAG_ANOMALY = ''ActionType.FLAG_ANOMALY''"
| "action_type_name COMPLIANCE_ALERT = ''ActionType.COMPLIANCE_ALERT''"
| "action_type_name RISK_ALERT = ''ActionType.RISK_ALERT''"
| "action_type_name CREATE_TICKET = ''ActionType.CREATE_TICKET''"

fun urgency_value :: "UrgencyLevel \<Rightarrow> string" where
  "urgency_value LOW = ''low''"
| "urgency_value MEDIUM = ''medium''"
| "urgency_value HIGH = ''high''"
| "urgency_value CRITICAL = ''critical''"

text \<open>
  The library calls of the agent are parameters of the model, collected in one record:
  \<^verbatim>\<open>jsonschema.validate\<close> (by the name of the registered schema), \<^verbatim>\<open>str\<close> and
  \<^verbatim>\<open>hash\<close>, the decimal form of an integer, \<^verbatim>\<open>uuid.uuid4\<close> (the \<open>n\<close>-th value drawn),
  \<^verbatim>\<open>datetime.isoformat\<close> and the text an f-string gives for an \<^verbatim>\<open>ActionType\<close> (the
  value or the qualified name of the member, depending on the Python version).
\<close>

record runtime =
  fromisoformat :: isoparser
  jsonschema_validate :: "data \<Rightarrow> string \<Rightarrow> schema_outcome"
  py_str :: "data \<Rightarrow> string"
  py_hash :: "string \<Rightarrow> int"
  str_int :: "int \<Rightarrow> string"
  uuid4 :: "nat \<Rightarrow> string"
  isoformat :: "real \<Rightarrow> string"
  format_action_type :: "ActionType \<Rightarrow> string"

record JSONValidationResult =
  is_valid :: bool
  schema_errors :: "string list"
  result_anomalies :: "string list"
  result_anomaly_score :: real
  missing_fields :: "string list"
  type_errors :: "string list"

text \<open>
  The constructor of the pydantic model: \<^verbatim>\<open>anomaly_score: float = Field(ge=0.0, le=1.0)\<close>
  refuses a score outside the unit interval.
\<close>

definition new_JSONValidationResult ::
  "bool \<Rightarrow> string list \<Rightarrow> string list \<Rightarrow> real \<Rightarrow> string list \<Rightarrow> string list
   \<Rightarrow> exn + JSONValidationResult" where
  "new_JSONValidationResult valid errors found s missing types =
     (if 0 \<le> s \<and> s \<le> 1
      then Inr \<lparr>is_valid = valid, schema_errors = errors, result_anomalies = found,
                result_anomaly_score = s, missing_fields = missing, type_errors = types\<rparr>
      else Inl (ValidationError ''anomaly_score''))"

definition schema_registry :: "string list" where
  "schema_registry = [''webhook'', ''invoice'', ''transaction'', ''user_event'']"

text \<open>\<^verbatim>\<open>str(e).split("'")[1] if "'" in str(e) else "unknown"\<close>.\<close>

definition quoted_field :: "string \<Rightarrow> string" where
  "quoted_field msg =
     (if CHR 0x27 \<in> set msg
      then takeWhile (\<lambda>c. c \<noteq> CHR 0x27) (tl (dropWhile (\<lambda>c. c \<noteq> CHR 0x27) msg))
      else ''unknown'')"

definition validate_schema :: "runtime \<Rightarrow> data \<Rightarrow> string \<Rightarrow> JSONValidationResult" where
  "validate_schema rt d schema_type =
     (if schema_type \<notin> set schema_registry
      then \<lparr>is_valid = True, schema_errors = [], result_anomalies = [],
             result_anomaly_score = 0, missing_fields = [], type_errors = []\<rparr>
      else
        (case jsonschema_validate rt d schema_type of
           SchemaOk \<Rightarrow>
             \<lparr>is_valid = True, schema_errors = [], result_anomalies = [],
              result_anomaly_score = 0, missing_fields = [], type_errors = []\<rparr>
         | SchemaInvalid msg \<Rightarrow>
             \<lparr>is_valid = False, schema_errors = [msg],
              result_anomalies = [''schema_validation_failure''],
              result_anomaly_score = 0.7,
              missing_fields = (if contains msg ''required'' then [quoted_field msg] else []),
              type_errors = (if contains msg ''type'' then [msg] else [])\<rparr>
         | SchemaCrash msg \<Rightarrow>
             \<lparr>is_valid = False, schema_errors = [''Validation error: '' @ msg],
              result_anomalies = [''validation_error''],
              result_anomaly_score = 0.8, missing_fields = [], type_errors = []\<rparr>))"

section \<open>The action policy\<close>

record ActionRequest =
  action_type :: ActionType
  payload :: data
  priority :: UrgencyLevel
  source_agent :: string
  correlation_id :: string

definition agent_name :: string where
  "agent_name = ''json_agent''"

definition high_risk_anomalies :: "string list" where
  "high_risk_anomalies =
     [''potential_sql_injection'', ''potential_script_injection'',
      ''rapid_succession_events'', ''unusual_amount'']"

definition json_strings :: "string list \<Rightarrow> json" where
  "json_strings xs = JArr (map JStr xs)"

text \<open>\<^verbatim>\<open>d.get(key, default)\<close>.\<close>

definition get_or :: "data \<Rightarrow> string \<Rightarrow> json \<Rightarrow> json" where
  "get_or d key dflt = (case lookup d key of None \<Rightarrow> dflt | Some v \<Rightarrow> v)"

text \<open>\<^verbatim>\<open>f"{prefix}_{hash(str(data))}_{int(datetime.utcnow().timestamp())}"\<close>.\<close>

definition correlation :: "runtime \<Rightarrow> real \<Rightarrow> string \<Rightarrow> data \<Rightarrow> string" where
  "correlation rt clock pre d =
     pre @ ''_'' @ str_int rt (py_hash rt (py_str rt d)) @ ''_'' @ str_int rt \<lfloor>clock\<rfloor>"

definition flag_anomaly_request ::
  "runtime \<Rightarrow> real \<Rightarrow> JSONValidationResult \<Rightarrow> data \<Rightarrow> string \<Rightarrow> ActionRequest" where
  "flag_anomaly_request rt clock result d schema_type =
     \<lparr>action_type = FLAG_ANOMALY,
      payload =
        [(''anomaly_type'', JStr ''json_validation_anomaly''),
         (''schema_type'', JStr schema_type),
         (''anomaly_score'', JFloat (result_anomaly_score result)),
         (''details'', JObj
            [(''schema_errors'', json_strings (schema_errors result)),
             (''anomalies'', json_strings (result_anomalies result)),
             (''missing_fields'', json_strings (missing_fields result)),
             (''type_errors'', json_strings (type_errors result))]),
         (''data_preview'', JStr (take 500 (py_str rt d)))],
      priority = (if result_anomaly_score result > 0.8 then HIGH else MEDIUM),
      source_agent = agent_name,
      correlation_id = correlation rt clock ''json_anomaly'' d\<rparr>"

definition risk_alert_request ::
  "runtime \<Rightarrow> real \<Rightarrow> JSONValidationResult \<Rightarrow> data \<Rightarrow> string \<Rightarrow> ActionRequest" where
  "risk_alert_request rt clock result d schema_type =
     \<lparr>action_type = RISK_ALERT,
      payload =
        [(''risk_type'', JStr ''data_security''),
         (''risk_score'', JFloat (result_anomaly_score result)),
         (''risk_indicators'', json_strings (result_anomalies result)),
         (''affected_entities'', JArr [get_or d ''user_id'' (JStr ''unknown'')]),
         (''data_context'', JObj
            [(''schema_type'', JStr schema_type),
             (''timestamp'', JStr (isoformat rt clock))])],
      priority = CRITICAL,
      source_agent = agent_name,
      correlation_id = correlation rt clock ''json_risk'' d\<rparr>"

text \<open>
  \<^verbatim>\<open>_generate_actions\<close>; \<open>clock\<close> is what \<^verbatim>\<open>datetime.utcnow()\<close> reads, in seconds.
  \<^verbatim>\<open>anomaly in result.anomalies\<close> is membership in a list of strings: equality of whole
  tags.
\<close>

definition generate_actions ::
  "runtime \<Rightarrow> real \<Rightarrow> JSONValidationResult \<Rightarrow> data \<Rightarrow> string \<Rightarrow> ActionRequest list" where
  "generate_actions rt clock result d schema_type =
     (if \<not> is_valid result \<or> result_anomaly_score result > anomaly_threshold
      then [flag_anomaly_request rt clock result d schema_type] else [])
     @
     (if list_ex (\<lambda>anomaly. anomaly \<in> set (result_anomalies result)) high_risk_anomalies
      then [risk_alert_request rt clock result d schema_type] else [])"

section \<open>The history windows\<close>

text \<open>\<^verbatim>\<open>xs[-n:]\<close> for a positive \<open>n\<close>: the last \<open>n\<close> entries, all of them when there are fewer.\<close>

definition last_n :: "nat \<Rightarrow> 'a list \<Rightarrow> 'a list" where
  "last_n n xs = drop (length xs - n) xs"

text \<open>\<^verbatim>\<open>h.append(x)\<close> followed by \<^verbatim>\<open>if len(h) > cap: h = h[-cap:]\<close>.\<close>

definition append_capped :: "nat \<Rightarrow> 'a list \<Rightarrow> 'a \<Rightarrow> 'a list" where
  "append_capped cap h x = (let h' = h @ [x] in if length h' > cap then last_n cap h' else h')"

text \<open>
  The first loop of \<^verbatim>\<open>_update_historical_data\<close>, over the amount fields still to visit.
  The agent is mutated in place, so the agent the loop leaves behind is returned together
  with the exception, if any: \<^verbatim>\<open>float(data[field])\<close> stands outside any \<^verbatim>\<open>try\<close>, and its
  \<^verbatim>\<open>OverflowError\<close> ends the call after the fields before it were appended.
\<close>

fun store_amounts ::
  "JSONAgent \<Rightarrow> data \<Rightarrow> string \<Rightarrow> string list \<Rightarrow> JSONAgent \<times> exn option" where
  "store_amounts agent d schema_type [] = (agent, None)"
| "store_amounts agent d schema_type (field # rest) =
     (case numeric_field d field of
        None \<Rightarrow> store_amounts agent d schema_type rest
      | Some (Inl e) \<Rightarrow> (agent, Some e)
      | Some (Inr amount) \<Rightarrow>
          (let key = amounts_key schema_type;
               agent' = agent\<lparr>historical_amounts :=
                          (historical_amounts agent)
                            (key := append_capped 1000 (historical_amounts agent key) amount)\<rparr>
           in store_amounts agent' d schema_type rest))"

text \<open>
  \<^verbatim>\<open>_update_historical_data\<close>. As in \<^verbatim>\<open>_check_pattern_anomaly\<close>, a timestamp that is not
  a string raises \<^verbatim>\<open>AttributeError\<close> past the \<^verbatim>\<open>except\<close> clause, after the amounts were
  stored.
\<close>

definition update_historical_data ::
  "isoparser \<Rightarrow> JSONAgent \<Rightarrow> data \<Rightarrow> string \<Rightarrow> JSONAgent \<times> exn option" where
  "update_historical_data parse_iso agent d schema_type =
     (case store_amounts agent d schema_type amount_fields of
        (agent1, Some e) \<Rightarrow> (agent1, Some e)
      | (agent1, None) \<Rightarrow>
          (case lookup d ''timestamp'' of
             None \<Rightarrow> (agent1, None)
           | Some (JStr s) \<Rightarrow>
               (case parse_iso (replace_Z s) of
                  None \<Rightarrow> (agent1, None)
                | Some ts \<Rightarrow>
                    (let key = timestamps_key schema_type in
                     (agent1\<lparr>historical_timestamps :=
                              (historical_timestamps agent1)
                                (key := append_capped 100 (historical_timestamps agent1 key) ts)\<rparr>,
                      None)))
           | Some v \<Rightarrow> (agent1, Some (no_attribute (type_name v) ''replace''))))"

text \<open>
  What one call of \<^verbatim>\<open>_update_historical_data\<close> appends to the amount window: the floats
  of the numeric amount fields of the record, in the order of the loop, up to the first one
  whose conversion raises.
\<close>

fun converted_amounts :: "data \<Rightarrow> string list \<Rightarrow> real list" where
  "converted_amounts d [] = []"
| "converted_amounts d (field # rest) =
     (case numeric_field d field of
        None \<Rightarrow> converted_amounts d rest
      | Some (Inl e) \<Rightarrow> []
      | Some (Inr amount) \<Rightarrow> amount # converted_amounts d rest)"

definition amount_values :: "data \<Rightarrow> real list" where
  "amount_values d = converted_amounts d amount_fields"

text \<open>Whether the conversion of some numeric amount field of the record raises.\<close>

definition conversion_raises :: "data \<Rightarrow> string \<Rightarrow> bool" where
  "conversion_raises d field =
     (case numeric_field d field of Some (Inl e) \<Rightarrow> True | _ \<Rightarrow> False)"

definition amount_overflow :: "data \<Rightarrow> bool" where
  "amount_overflow d = list_ex (conversion_raises d) amount_fields"

text \<open>
  The timestamp one call appends to the timestamp window, if any: the parsed value of a
  string that \<^verbatim>\<open>fromisoformat\<close> accepts, unless the loop over the amounts has raised.
\<close>

definition timestamp_values :: "isoparser \<Rightarrow> data \<Rightarrow> datetime list" where
  "timestamp_values parse_iso d =
     (if amount_overflow d then []
      else
        (case lookup d ''timestamp'' of
           Some (JStr s) \<Rightarrow> (case parse_iso (replace_Z s) of None \<Rightarrow> [] | Some ts \<Rightarrow> [ts])
         | _ \<Rightarrow> []))"

text \<open>
  A sequence of calls of \<^verbatim>\<open>_update_historical_data\<close>, each with its record and schema
  type, on the same agent; a call that raises has still stored the amounts before the
  exception.
\<close>

fun feed :: "isoparser \<Rightarrow> JSONAgent \<Rightarrow> (data \<times> string) list \<Rightarrow> JSONAgent" where
  "feed parse_iso agent [] = agent"
| "feed parse_iso agent ((d, schema_type) # calls) =
     feed parse_iso (fst (update_historical_data parse_iso agent d schema_type)) calls"

text \<open>
  What a sequence of calls appends to the amount window and to the timestamp window of the
  key \<open>k\<close>, in the order of the calls.
\<close>

definition amounts_fed :: "string \<Rightarrow> (data \<times> string) list \<Rightarrow> real list" where
  "amounts_fed k calls =
     concat (map (\<lambda>(d, schema_type).
                    if amounts_key schema_type = k then amount_values d else []) calls)"

definition timestamps_fed :: "isoparser \<Rightarrow> string \<Rightarrow> (data \<times> string) list \<Rightarrow> datetime list" where
  "timestamps_fed parse_iso k calls =
     concat (map (\<lambda>(d, schema_type).
                    if timestamps_key schema_type = k then timestamp_values parse_iso d
                    else []) calls)"

section \<open>The memory store\<close>

text \<open>
  The module-level \<^verbatim>\<open>MemoryStore\<close> with the state of the Redis server behind it:
  \<open>redis_up\<close> tells whether the server answers, \<open>counters\<close> are the keys
  \<^verbatim>\<open>counter:<name>\<close> it holds.
\<close>

record MemoryStore =
  is_connected :: bool
  redis_up :: bool
  counters :: "string \<Rightarrow> int"

text \<open>
  \<^verbatim>\<open>get_memory_store\<close>: connects when the store is not connected, and \<^verbatim>\<open>connect\<close> logs and
  re-raises the failure of \<^verbatim>\<open>ping\<close>.
\<close>

definition get_memory_store :: "MemoryStore \<Rightarrow> exn + MemoryStore" where
  "get_memory_store ms =
     (if is_connected ms then Inr ms
      else if redis_up ms then Inr (ms\<lparr>is_connected := True\<rparr>)
      else Inl (ConnectionError ''Error connecting to Redis''))"

text \<open>\<^verbatim>\<open>increment_counter\<close> catches every exception of the client and returns 0 then.\<close>

definition increment_counter :: "MemoryStore \<Rightarrow> string \<Rightarrow> MemoryStore" where
  "increment_counter ms name =
     (if redis_up ms then ms\<lparr>counters := (counters ms)(name := counters ms name + 1)\<rparr> else ms)"

section \<open>Processing one record\<close>

text \<open>
  \<^verbatim>\<open>process_json\<close> on a record that is already parsed (the \<^verbatim>\<open>dict\<close> branch, which the
  string branch joins after \<^verbatim>\<open>json.loads\<close>). The agent and the store are mutated in place,
  so both are returned beside the result or the exception; \<open>clock\<close> is the time in seconds.
\<close>

definition count_result :: "MemoryStore \<Rightarrow> JSONValidationResult \<Rightarrow> string \<Rightarrow> MemoryStore" where
  "count_result ms result schema_type =
     (let ms1 = increment_counter ms ''json_processed'';
          ms2 = increment_counter ms1 (''schema_'' @ schema_type);
          ms3 = (if \<not> is_valid result then increment_counter ms2 ''json_validation_failures''
                 else ms2)
      in if result_anomaly_score result > anomaly_threshold
         then increment_counter ms3 ''anomalies_detected'' else ms3)"

text \<open>The \<^verbatim>\<open>JSONValidationResult(...)\<close> that \<^verbatim>\<open>process_json\<close> builds from both results.\<close>

definition combine_results ::
  "JSONValidationResult \<Rightarrow> anomaly_report \<Rightarrow> exn + JSONValidationResult" where
  "combine_results validation_result anomaly_result =
     new_JSONValidationResult
       (is_valid validation_result \<and> is_normal anomaly_result)
       (schema_errors validation_result)
       (report_anomalies anomaly_result)
       (anomaly_score anomaly_result)
       (missing_fields validation_result)
       (type_errors validation_result)"

definition process_json ::
  "runtime \<Rightarrow> real \<Rightarrow> JSONAgent \<Rightarrow> MemoryStore \<Rightarrow> data \<Rightarrow> string
   \<Rightarrow> (exn + JSONValidationResult \<times> ActionRequest list) \<times> JSONAgent \<times> MemoryStore" where
  "process_json rt clock agent ms d schema_type =
     (let validation_result = validate_schema rt d schema_type in
      case detect_anomalies (fromisoformat rt) agent d schema_type of
        Inl e \<Rightarrow> (Inl e, agent, ms)
      | Inr anomaly_result \<Rightarrow>
          (case combine_results validation_result anomaly_result of
             Inl e \<Rightarrow> (Inl e, agent, ms)
           | Inr combined_result \<Rightarrow>
               (let actions = generate_actions rt clock combined_result d schema_type in
                case update_historical_data (fromisoformat rt) agent d schema_type of
                  (agent', Some e) \<Rightarrow> (Inl e, agent', ms)
                | (agent', None) \<Rightarrow>
                    (let confidence = 1 - result_anomaly_score combined_result in
                     if \<not> (0 \<le> confidence \<and> confidence \<le> 1)
                     then (Inl (ValidationError ''confidence''), agent', ms)
                     else
                       (case get_memory_store ms of
                          Inl e \<Rightarrow> (Inl e, agent', ms)
                        | Inr ms' \<Rightarrow>
                            (Inr (combined_result, actions), agent',
                             count_result ms' combined_result schema_type))))))"

section \<open>The action router\<close>

text \<open>
  What the router and its handlers read and change: the clock (\<^verbatim>\<open>datetime.utcnow()\<close>, in
  seconds), the delays passed to \<^verbatim>\<open>asyncio.sleep\<close> so far, the number of identifiers
  drawn from \<^verbatim>\<open>uuid.uuid4\<close>, and the memory store. The clock moves where the source waits:
  in \<^verbatim>\<open>asyncio.sleep\<close>, which is taken to wait exactly as long as asked, and inside a
  handler.
\<close>

record world =
  now :: real
  slept :: "real list"
  drawn :: nat
  store :: MemoryStore

text \<open>
  A handler is a coroutine \<^verbatim>\<open>handler(action_request)\<close> that returns a dictionary or raises
  an \<^verbatim>\<open>Exception\<close>, and may change the world on the way.
\<close>

type_synonym handler = "world \<Rightarrow> ActionRequest \<Rightarrow> (exn + data) \<times> world"

record ActionRouter =
  action_handlers :: "ActionType \<Rightarrow> handler option"
  retry_attempts :: nat
  retry_delay :: real

record ActionResult =
  action_id :: string
  result_action_type :: ActionType
  status :: string
  response_data :: "data option"
  error_message :: "string option"
  result_timestamp :: real
  execution_time_ms :: "real option"

definition asyncio_sleep :: "real \<Rightarrow> world \<Rightarrow> world" where
  "asyncio_sleep delay w = w\<lparr>now := now w + max 0 delay, slept := slept w @ [delay]\<rparr>"

definition draw_uuid :: "runtime \<Rightarrow> world \<Rightarrow> string \<times> world" where
  "draw_uuid rt w = (uuid4 rt (drawn w), w\<lparr>drawn := Suc (drawn w)\<rparr>)"

text \<open>
  The loop of \<^verbatim>\<open>_execute_with_retry\<close>: \<open>attempt\<close> is the loop variable, \<open>left\<close> the
  number of iterations still to run. After the loop \<^verbatim>\<open>raise last_exception\<close> raises the
  last error, and a \<^verbatim>\<open>TypeError\<close> when the loop never ran.
\<close>

fun attempts ::
  "ActionRouter \<Rightarrow> handler \<Rightarrow> ActionRequest \<Rightarrow> nat \<Rightarrow> nat \<Rightarrow> exn option \<Rightarrow> world
   \<Rightarrow> (exn + data) \<times> world" where
  "attempts router h req attempt 0 last_exception w =
     (case last_exception of
        None \<Rightarrow> (Inl (TypeError ''exceptions must derive from BaseException''), w)
      | Some e \<Rightarrow> (Inl e, w))"
| "attempts router h req attempt (Suc left) last_exception w =
     (case h w req of
        (Inr result, w') \<Rightarrow> (Inr result, w')
      | (Inl e, w') \<Rightarrow>
          (if attempt + 1 < retry_attempts router
           then attempts router h req (attempt + 1) left (Some e)
                  (asyncio_sleep (retry_delay router * real (attempt + 1)) w')
           else attempts router h req (attempt + 1) left (Some e) w'))"

definition execute_with_retry ::
  "ActionRouter \<Rightarrow> handler \<Rightarrow> ActionRequest \<Rightarrow> world \<Rightarrow> (exn + data) \<times> world" where
  "execute_with_retry router h req w = attempts router h req 0 (retry_attempts router) None w"

text \<open>
  The \<^verbatim>\<open>except Exception\<close> branch of \<^verbatim>\<open>route_action\<close>: the failed result is built, then
  the store is fetched for the counter, outside any \<^verbatim>\<open>try\<close>.
\<close>

definition route_failed ::
  "string \<Rightarrow> real \<Rightarrow> ActionRequest \<Rightarrow> exn \<Rightarrow> world \<Rightarrow> (exn + ActionResult) \<times> world" where
  "route_failed aid start_time req e w =
     (let execution_time = (now w - start_time) * 1000;
          action_result =
            \<lparr>action_id = aid, result_action_type = action_type req, status = ''failed'',
             response_data = None, error_message = Some (str_exn e),
             result_timestamp = now w, execution_time_ms = Some execution_time\<rparr>
      in case get_memory_store (store w) of
           Inl e' \<Rightarrow> (Inl e', w)
         | Inr ms \<Rightarrow> (Inr action_result, w\<lparr>store := increment_counter ms ''actions_failed''\<rparr>))"

definition route_action ::
  "runtime \<Rightarrow> ActionRouter \<Rightarrow> ActionRequest \<Rightarrow> world \<Rightarrow> (exn + ActionResult) \<times> world" where
  "route_action rt router req w =
     (let (aid, w0) = draw_uuid rt w;
          start_time = now w0
      in case action_handlers router (action_type req) of
           None \<Rightarrow>
             route_failed aid start_time req
               (ValueError (''No handler found for action type: ''
                            @ format_action_type rt (action_type req))) w0
         | Some h \<Rightarrow>
             (case execute_with_retry router h req w0 of
                (Inl e, w1) \<Rightarrow> route_failed aid start_time req e w1
              | (Inr result, w1) \<Rightarrow>
                  (let execution_time = (now w1 - start_time) * 1000;
                       action_result =
                         \<lparr>action_id = aid, result_action_type = action_type req,
                          status = ''success'', response_data = Some result,
                          error_message = None, result_timestamp = now w1,
                          execution_time_ms = Some execution_time\<rparr>
                   in case get_memory_store (store w1) of
                        Inl e \<Rightarrow> route_failed aid start_time req e w1
                      | Inr ms \<Rightarrow>
                          (Inr action_result,
                           w1\<lparr>store := increment_counter ms ''actions_executed''\<rparr>))))"

subsection \<open>The registered handlers\<close>

definition handle_escalation :: "runtime \<Rightarrow> handler" where
  "handle_escalation rt w req =
     (let (ticket_id, w1) = draw_uuid rt w;
          crm_data =
            [(''ticket_id'', JStr ticket_id),
             (''priority'', JStr (urgency_value (priority req))),
             (''source'', JStr (source_agent req)),
             (''description'', get_or (payload req) ''description'' (JStr ''Escalated issue'')),
             (''customer_info'', get_or (payload req) ''customer_info'' (JObj [])),
             (''escalation_reason'',
                get_or (payload req) ''escalation_reason'' (JStr ''Agent decision'')),
             (''assigned_to'', JStr ''escalation_team''),
             (''created_at'', JStr (isoformat rt (now w1)))];
          w2 = asyncio_sleep 0.1 w1
      in (Inr [(''crm_response'', JObj crm_data),
               (''api_endpoint'', JStr ''/crm/escalate''),
               (''status_code'', JInt 201),
               (''message'', JStr ''Escalation ticket created successfully'')], w2))"

text \<open>
  \<^verbatim>\<open>_handle_log_and_close\<close> fetches the store and passes \<^verbatim>\<open>store_entry\<close> a dictionary
  where a \<^verbatim>\<open>MemoryEntry\<close> is expected. \<^verbatim>\<open>entry.key\<close> raises \<^verbatim>\<open>AttributeError\<close> inside the
  \<^verbatim>\<open>try\<close> of \<^verbatim>\<open>store_entry\<close>, and the f-string of its \<^verbatim>\<open>except\<close> clause reads
  \<^verbatim>\<open>entry.key\<close> again, so the error leaves \<^verbatim>\<open>store_entry\<close> and the handler.
\<close>

definition store_entry_dict :: "MemoryStore \<Rightarrow> data \<Rightarrow> exn + bool" where
  "store_entry_dict ms entry = Inl (no_attribute ''dict'' ''key'')"

definition handle_log_and_close :: "runtime \<Rightarrow> handler" where
  "handle_log_and_close rt w req =
     (let (log_id, w1) = draw_uuid rt w;
          log_entry =
            [(''log_id'', JStr log_id),
             (''source'', JStr (source_agent req)),
             (''action'', JStr ''log_and_close''),
             (''details'', JObj (payload req)),
             (''status'', JStr ''closed''),
             (''timestamp'', JStr (isoformat rt (now w1)))]
      in case get_memory_store (store w1) of
           Inl e \<Rightarrow> (Inl e, w1)
         | Inr ms \<Rightarrow>
             (case store_entry_dict ms
                     [(''key'', JStr (''log_entry:'' @ log_id)),
                      (''value'', JObj log_entry),
                      (''entry_type'', JStr ''log_entry''),
                      (''agent_source'', JStr (source_agent req))] of
                Inl e \<Rightarrow> (Inl e, w1\<lparr>store := ms\<rparr>)
              | Inr stored \<Rightarrow>
                  (Inr [(''log_entry'', JObj log_entry),
                        (''message'', JStr ''Issue logged and closed successfully'')],
                   w1\<lparr>store := ms\<rparr>)))"

definition handle_flag_anomaly :: "runtime \<Rightarrow> handler" where
  "handle_flag_anomaly rt w req =
     (let (alert_id, w1) = draw_uuid rt w;
          anomaly_alert =
            [(''alert_id'', JStr alert_id),
             (''anomaly_type'', get_or (payload req) ''anomaly_type'' (JStr ''data_anomaly'')),
             (''severity'', JStr (urgency_value (priority req))),
             (''source'', JStr (source_agent req)),
             (''details'', get_or (payload req) ''details'' (JObj [])),
             (''anomaly_score'', get_or (payload req) ''anomaly_score'' (JFloat 0)),
             (''flagged_at'', JStr (isoformat rt (now w1))),
             (''requires_review'', JBool True)];
          w2 = asyncio_sleep 0.05 w1
      in (Inr [(''anomaly_alert'', JObj anomaly_alert),
               (''api_endpoint'', JStr ''/alerts/anomaly''),
               (''status_code'', JInt 201),
               (''message'', JStr ''Anomaly alert created successfully'')], w2))"

definition handle_compliance_alert :: "runtime \<Rightarrow> handler" where
  "handle_compliance_alert rt w req =
     (let (alert_id, w1) = draw_uuid rt w;
          compliance_alert =
            [(''alert_id'', JStr alert_id),
             (''compliance_type'', get_or (payload req) ''compliance_type'' (JStr ''general'')),
             (''regulations'', get_or (payload req) ''regulations'' (JArr [])),
             (''severity'', JStr ''high''),
             (''source'', JStr (source_agent req)),
             (''document_info'', get_or (payload req) ''document_info'' (JObj [])),
             (''flagged_keywords'', get_or (payload req) ''flagged_keywords'' (JArr [])),
             (''created_at'', JStr (isoformat rt (now w1))),
             (''requires_legal_review'', JBool True)];
          w2 = asyncio_sleep 0.1 w1
      in (Inr [(''compliance_alert'', JObj compliance_alert),
               (''api_endpoint'', JStr ''/compliance/alert''),
               (''status_code'', JInt 201),
               (''message'', JStr ''Compliance alert created successfully'')], w2))"

definition handle_risk_alert :: "runtime \<Rightarrow> handler" where
  "handle_risk_alert rt w req =
     (let (alert_id, w1) = draw_uuid rt w;
          risk_alert =
            [(''alert_id'', JStr alert_id),
             (''risk_type'', get_or (payload req) ''risk_type'' (JStr ''financial'')),
             (''risk_score'', get_or (payload req) ''risk_score'' (JFloat 0)),
             (''severity'', JStr (urgency_value (priority req))),
             (''source'', JStr (source_agent req)),
             (''risk_indicators'', get_or (payload req) ''risk_indicators'' (JArr [])),
             (''affected_entities'', get_or (payload req) ''affected_entities'' (JArr [])),
             (''created_at'', JStr (isoformat rt (now w1))),
             (''requires_investigation'', JBool True)];
          w2 = asyncio_sleep 0.08 w1
      in (Inr [(''risk_alert'', JObj risk_alert),
               (''api_endpoint'', JStr ''/risk/alert''),
               (''status_code'', JInt 201),
               (''message'', JStr ''Risk alert created successfully'')], w2))"

definition handle_create_ticket :: "runtime \<Rightarrow> handler" where
  "handle_create_ticket rt w req =
     (let (ticket_id, w1) = draw_uuid rt w;
          ticket =
            [(''ticket_id'', JStr ticket_id),
             (''title'', get_or (payload req) ''title'' (JStr ''Auto-generated ticket'')),
             (''description'', get_or (payload req) ''description'' (JStr [])),
             (''priority'', JStr (urgency_value (priority req))),
             (''category'', get_or (payload req) ''category'' (JStr ''general'')),
             (''source'', JStr (source_agent req)),
             (''assignee'', get_or (payload req) ''assignee'' (JStr ''auto_assignment'')),
             (''status'', JStr ''open''),
             (''created_at'', JStr (isoformat rt (now w1))),
             (''metadata'', get_or (payload req) ''metadata'' (JObj []))];
          w2 = asyncio_sleep 0.06 w1
      in (Inr [(''ticket'', JObj ticket),
               (''api_endpoint'', JStr ''/tickets/create''),
               (''status_code'', JInt 201),
               (''message'', JStr ''Ticket created successfully'')], w2))"

fun registered_handler :: "runtime \<Rightarrow> ActionType \<Rightarrow> handler" where
  "registered_handler rt ESCALATE = handle_escalation rt"
| "registered_handler rt LOG_AND_CLOSE = handle_log_and_close rt"
| "registered_handler rt FLAG_ANOMALY = handle_flag_anomaly rt"
| "registered_handler rt COMPLIANCE_ALERT = handle_compliance_alert rt"
| "registered_handler rt RISK_ALERT = handle_risk_alert rt"
| "registered_handler rt CREATE_TICKET = handle_create_ticket rt"

text \<open>\<^verbatim>\<open>ActionRouter.__init__\<close>.\<close>

definition new_ActionRouter :: "runtime \<Rightarrow> ActionRouter" where
  "new_ActionRouter rt =
     \<lparr>action_handlers = (\<lambda>t. Some (registered_handler rt t)),
      retry_attempts = 3,
      retry_delay = 1.0\<rparr>"

text \<open>
  A stand-in for \<^verbatim>\<open>datetime.fromisoformat\<close> on the few strings the examples below use:
  one aware and one naive timestamp are accepted, everything else is rejected.
\<close>

definition iso_table :: isoparser where
  "iso_table s =
     (if s = ''2024-01-01T00:00:00+00:00'' then Some \<lparr>tz_aware = True, micros = 1704067200000000\<rparr>
      else if s = ''2024-01-01T00:00:00'' then Some \<lparr>tz_aware = False, micros = 1704067200000000\<rparr>
      else None)"

text \<open>
  A runtime for the examples: the timestamp table above, a schema validator that accepts
  every record, and fixed texts for the remaining library calls.
\<close>

definition sample_runtime :: runtime where
  "sample_runtime =
     \<lparr>fromisoformat = iso_table,
      jsonschema_validate = (\<lambda>d schema_type. SchemaOk),
      py_str = (\<lambda>d. ''{...}''),
      py_hash = (\<lambda>s. int (length s)),
      str_int = (\<lambda>i. if i < 0 then ''-n'' else ''n''),
      uuid4 = (\<lambda>n. replicate (Suc n) CHR ''u''),
      isoformat = (\<lambda>t. ''2024-01-01T00:00:00''),
      format_action_type = action_type_name\<rparr>"

section \<open>Example states\<close>

text \<open>
  An agent that has seen three amounts for the schema type \<open>webhook\<close>, one that has seen
  ten, and a store with and without a reachable server.
\<close>

definition few_samples :: JSONAgent where
  "few_samples =
     new_JSONAgent\<lparr>historical_amounts := (\<lambda>k. [])(''webhook_amounts'' := [100, 120, 110])\<rparr>"

definition ten_samples :: JSONAgent where
  "ten_samples =
     new_JSONAgent\<lparr>historical_amounts := (\<lambda>k. [])(''webhook_amounts'' := replicate 10 100)\<rparr>"

definition store_up :: MemoryStore where
  "store_up = \<lparr>is_connected = True, redis_up = True, counters = (\<lambda>name. 0)\<rparr>"

definition store_down :: MemoryStore where
  "store_down = \<lparr>is_connected = False, redis_up = False, counters = (\<lambda>name. 0)\<rparr>"

text \<open>A record with four fields of an unexpected type.\<close>

definition four_mismatches :: data where
  "four_mismatches =
     [(''id'', JInt 1), (''user_id'', JInt 2), (''count'', JStr ''x''), (''email'', JInt 3)]"

text \<open>A sequence of \<open>n\<close> records with the amounts \<open>0, 1, ..., n - 1\<close>.\<close>

definition amount_calls :: "nat \<Rightarrow> (data \<times> string) list" where
  "amount_calls n = map (\<lambda>i. ([(''amount'', JInt (int i))], ''webhook'')) [0..<n]"

text \<open>
  A handler for a service that is unavailable until the clock reads 3 seconds and answers
  from then on, each call taking a quarter of a second; a router that registers it for
  \<open>escalate\<close> only; a request of a given type; and a world with each of the two stores.
\<close>

definition flaky_handler :: handler where
  "flaky_handler w req =
     (if now w < 3
      then (Inl (HandlerError ''service unavailable''), w\<lparr>now := now w + 1 / 4\<rparr>)
      else (Inr [(''status_code'', JInt 200)], w\<lparr>now := now w + 1 / 4\<rparr>))"

definition flaky_router :: ActionRouter where
  "flaky_router =
     \<lparr>action_handlers = (\<lambda>t. if t = ESCALATE then Some flaky_handler else None),
      retry_attempts = 3,
      retry_delay = 1\<rparr>"

definition sample_request :: "ActionType \<Rightarrow> ActionRequest" where
  "sample_request t =
     \<lparr>action_type = t, payload = [], priority = MEDIUM,
      source_agent = ''test_agent'', correlation_id = ''test_123''\<rparr>"

definition world_up :: world where
  "world_up = \<lparr>now = 0, slept = [], drawn = 0, store = store_up\<rparr>"

definition world_down :: world where
  "world_down = \<lparr>now = 0, slept = [], drawn = 0, store = store_down\<rparr>"

section \<open>Properties\<close>

subsection \<open>The conversion of integers\<close>

lemma round_to_double_exact: "m < 2 ^ 53 \<Longrightarrow> round_to_double m = m"
proof -
  assume "m < 2 ^ 53"
  then have "bitlen m \<le> 53" by (simp add: bitlen_le_iff_power)
  then show ?thesis by (simp add: round_to_double_def)
qed

text \<open>An integer of at most 53 bits converts to itself.\<close>

lemma float_of_int_exact:
  assumes "\<bar>n\<bar> < 2 ^ 53"
  shows "float_of_int n = Inr (of_int n)"
proof -
  have "(2::int) ^ 53 < double_limit" by (simp add: double_limit_def)
  with assms have "\<not> \<bar>n\<bar> \<ge> double_limit" by linarith
  moreover have "sgn n * round_to_double \<bar>n\<bar> = n"
    using assms by (simp add: round_to_double_exact mult_sgn_abs)
  ultimately show ?thesis by (simp add: float_of_int_def)
qed

text \<open>A longer one is rounded: \<^verbatim>\<open>float(2**53 + 1) == 2.0**53\<close>.\<close>

lemma float_of_int_rounds: "float_of_int (2 ^ 53 + 1) = Inr (2 ^ 53)"
proof -
  have b: "bitlen 9007199254740993 = 54" using bitlen_twopow_add_eq[of 1 53] by simp
  have "round_to_double (2 ^ 53 + 1) = 2 ^ 53"
    by (simp add: round_to_double_def b Let_def)
  then show ?thesis by (simp add: float_of_int_def double_limit_def)
qed

text \<open>\<^verbatim>\<open>float(10**400)\<close> raises.\<close>

lemma float_of_int_overflow:
  "float_of_int (10 ^ 400) = Inl (OverflowError ''int too large to convert to float'')"
  by (simp add: float_of_int_def double_limit_def)

text \<open>The conversion of a field raises nothing but \<^verbatim>\<open>OverflowError\<close>.\<close>

lemma numeric_field_error:
  "numeric_field d field = Some (Inl e) \<Longrightarrow>
   e = OverflowError ''int too large to convert to float''"
proof -
  assume a: "numeric_field d field = Some (Inl e)"
  then obtain v where v: "lookup d field = Some v" "py_float v = Some (Inl e)"
    by (auto simp: numeric_field_def split: option.splits if_splits)
  then show ?thesis
    by (cases v) (auto simp: float_of_int_def split: if_splits)
qed

lemmas detector_defs =
  detect_anomalies_def check_amount_anomaly_def amount_fields_def numeric_field_def lookup_def
  float_of_int_exact
  check_pattern_anomaly_def replace_Z_def iso_table_def invalid_timestamp_def
  check_data_quality_def null_percentage_threshold_def check_type_anomalies_def
  expected_types_def type_mismatch_def anomaly_threshold_def lower_def lower_char_def
  sql_patterns_def script_patterns_def min_samples_def amounts_key_def timestamps_key_def
  new_JSONAgent_def time_window_def time_window_minutes_def rapid_succession_def
  threshold_multiplier_def amount_score_def


lemma history_keys_disjoint: "amounts_key a \<noteq> timestamps_key b"
proof
  assume "amounts_key a = timestamps_key b"
  then have "rev (a @ ''_amounts'') = rev (b @ ''_timestamps'')"
    by (simp add: amounts_key_def timestamps_key_def)
  then show False by simp
qed

lemma absorb_tags: "fst (absorb acc r) = fst acc @ tags_of r"
  by (cases acc; cases r) (simp_all add: tags_of_def)

subsection \<open>The report score is the maximum of the sub-scores\<close>

lemma two_half_scores:
  "detect_anomalies iso_table new_JSONAgent
     [(''timestamp'', JStr ''yesterday''), (''note'', JNull)] ''webhook'' =
   Inr \<lparr>is_normal = True,
         report_anomalies = [''invalid_timestamp_format'', ''excessive_null_values''],
         anomaly_score = 1 / 2\<rparr>"
  by (simp add: detector_defs)

text \<open>
  C1. Whenever \<^verbatim>\<open>_detect_anomalies\<close> produces a report, its score is the largest of the
  sub-scores of the sub-detectors that fired (amount, rate, data quality, type) and of the
  initial 0.0, capped at 1: never a sum. The record is normal exactly when the reported
  score is below the threshold 0.8. When exactly two sub-detectors fire, each with
  sub-score 0.5, the reported score is 0.5.
\<close>

theorem detect_anomalies_score_is_max:
  assumes "detect_anomalies parse_iso agent d schema_type = Inr report"
  shows "\<exists>amount pattern.
           check_amount_anomaly agent d schema_type = Inr amount \<and>
           check_pattern_anomaly parse_iso agent d schema_type = Inr pattern \<and>
           anomaly_score report =
             min 1 (Max (set (0 # fired_scores
                      [amount, pattern, check_data_quality d, check_type_anomalies d]))) \<and>
           (is_normal report \<longleftrightarrow> anomaly_score report < anomaly_threshold) \<and>
           (fired_scores [amount, pattern, check_data_quality d, check_type_anomalies d]
              = [1 / 2, 1 / 2]
            \<longrightarrow> anomaly_score report = 1 / 2)"
proof -
  from assms obtain a where a: "check_amount_anomaly agent d schema_type = Inr a"
    by (auto simp: detect_anomalies_def Let_def split: sum.splits)
  from assms a obtain p where p: "check_pattern_anomaly parse_iso agent d schema_type = Inr p"
    by (auto simp: detect_anomalies_def Let_def split: sum.splits)
  define q where "q = check_data_quality d"
  define t where "t = check_type_anomalies d"
  define s where "s = snd (absorb (absorb (absorb (absorb ([], 0) a) p) q) t)"
  have r: "anomaly_score report = min s 1" "is_normal report = (s < anomaly_threshold)"
    using assms a p
    by (auto simp: detect_anomalies_def Let_def s_def q_def t_def split: prod.splits)
  have s: "s = Max (set (0 # fired_scores [a, p, q, t]))"
    unfolding s_def fired_scores_def
    by (cases a; cases p; cases q; cases t)
       (simp_all add: max.commute max.left_commute max.assoc)
  have 1: "anomaly_score report = min 1 (Max (set (0 # fired_scores [a, p, q, t])))"
    using r(1) s by (simp only: min.commute)
  have 2: "is_normal report \<longleftrightarrow> anomaly_score report < anomaly_threshold"
    using r by (auto simp: anomaly_threshold_def min_def)
  have 3: "fired_scores [a, p, q, t] = [1 / 2, 1 / 2] \<longrightarrow> anomaly_score report = 1 / 2"
    using 1 by simp
  show ?thesis
    using a p 1 2 3 unfolding q_def t_def by blast
qed

theorem detect_anomalies_score_is_max_witness:
  "\<exists>report.
     detect_anomalies iso_table new_JSONAgent
       [(''timestamp'', JStr ''yesterday''), (''note'', JNull)] ''webhook'' = Inr report \<and>
     check_amount_anomaly new_JSONAgent
       [(''timestamp'', JStr ''yesterday''), (''note'', JNull)] ''webhook'' = Inr None \<and>
     check_pattern_anomaly iso_table new_JSONAgent
       [(''timestamp'', JStr ''yesterday''), (''note'', JNull)] ''webhook''
       = Inr (Some invalid_timestamp) \<and>
     fired_scores
       [None,
        Some invalid_timestamp,
        check_data_quality [(''timestamp'', JStr ''yesterday''), (''note'', JNull)],
        check_type_anomalies [(''timestamp'', JStr ''yesterday''), (''note'', JNull)]]
       = [1 / 2, 1 / 2] \<and>
     anomaly_score report = 1 / 2 \<and> is_normal report"
proof -
  have a: "check_amount_anomaly new_JSONAgent
             [(''timestamp'', JStr ''yesterday''), (''note'', JNull)] ''webhook'' = Inr None"
    by (simp add: detector_defs)
  have p: "check_pattern_anomaly iso_table new_JSONAgent
             [(''timestamp'', JStr ''yesterday''), (''note'', JNull)] ''webhook''
           = Inr (Some invalid_timestamp)"
    by (simp add: detector_defs)
  have f: "fired_scores
       [None,
        Some invalid_timestamp,
        check_data_quality [(''timestamp'', JStr ''yesterday''), (''note'', JNull)],
        check_type_anomalies [(''timestamp'', JStr ''yesterday''), (''note'', JNull)]]
       = [1 / 2, 1 / 2]"
    by (simp add: detector_defs fired_scores_def List.map_filter_simps)
  from detect_anomalies_score_is_max [OF two_half_scores] a p f
  show ?thesis
    by (simp add: two_half_scores anomaly_threshold_def)
qed

subsection \<open>The tags each sub-detector can emit\<close>

text \<open>
  Below \<open>min_samples\<close> the loop of the amount sub-detector converts each numeric amount
  field and does nothing else with it: it returns \<^verbatim>\<open>None\<close> unless a conversion raises.
\<close>

lemma check_amount_fields_few:
  "length (historical_amounts agent (amounts_key schema_type)) < min_samples \<Longrightarrow>
   check_amount_fields agent d schema_type fs =
     (if list_ex (conversion_raises d) fs
      then Inl (OverflowError ''int too large to convert to float'') else Inr None)"
proof (induction fs)
  case Nil
  then show ?case by simp
next
  case (Cons f fs)
  show ?case
  proof (cases "numeric_field d f")
    case None
    with Cons show ?thesis by (simp add: conversion_raises_def)
  next
    case (Some r)
    show ?thesis
    proof (cases r)
      case (Inl e)
      with Some numeric_field_error[of d f e] show ?thesis
        by (simp add: conversion_raises_def)
    next
      case (Inr x)
      with Some Cons show ?thesis by (simp add: conversion_raises_def)
    qed
  qed
qed

lemma np_std_nonneg: "0 \<le> np_std xs"
  unfolding np_std_def by (intro real_sqrt_ge_zero divide_nonneg_nonneg sum_list_nonneg) auto

lemma amount_score_fired:
  assumes "\<bar>a - m\<bar> > threshold_multiplier * s" "0 \<le> s"
  shows "amount_score a m s = 1"
proof (cases "threshold_multiplier * s = 0")
  case True
  then show ?thesis by (simp add: amount_score_def)
next
  case False
  with assms(2) have pos: "0 < threshold_multiplier * s"
    by (simp add: threshold_multiplier_def)
  with assms(1) have "1 < \<bar>a - m\<bar> / (threshold_multiplier * s)"
    by (simp add: field_simps)
  with False show ?thesis by (simp add: amount_score_def)
qed

text \<open>
  When the amount sub-detector fires, its tag is \<open>unusual_<field>_amount\<close> for the first
  amount field that deviates, and its sub-score is 1.
\<close>

lemma check_amount_fields_tags:
  "check_amount_fields agent d schema_type fs = Inr (Some f) \<Longrightarrow>
   \<exists>field \<in> set fs. f = \<lparr>anomalies = [''unusual_'' @ field @ ''_amount''], score = 1\<rparr>"
proof (induction fs)
  case Nil
  then show ?case by simp
next
  case (Cons a fs)
  show ?case
  proof (cases "check_amount_fields agent d schema_type fs = Inr (Some f)")
    case True
    with Cons.IH show ?thesis by auto
  next
    case False
    with Cons.prems obtain amount where
      "f = \<lparr>anomalies = [''unusual_'' @ a @ ''_amount''],
            score = amount_score amount
                      (np_mean (historical_amounts agent (amounts_key schema_type)))
                      (np_std (historical_amounts agent (amounts_key schema_type)))\<rparr>"
      "\<bar>amount - np_mean (historical_amounts agent (amounts_key schema_type))\<bar>
         > threshold_multiplier * np_std (historical_amounts agent (amounts_key schema_type))"
      by (auto simp: Let_def split: option.splits sum.splits if_splits)
    then show ?thesis by (simp add: amount_score_fired np_std_nonneg)
  qed
qed

lemma amount_tags:
  "check_amount_anomaly agent d st = Inr a \<Longrightarrow> tag \<in> set (tags_of a) \<Longrightarrow>
   tag \<in> {''unusual_amount_amount'', ''unusual_total_amount'',
          ''unusual_value_amount'', ''unusual_price_amount''}"
  using check_amount_fields_tags[of agent d st amount_fields]
  by (cases a) (auto simp: tags_of_def check_amount_anomaly_def amount_fields_def)

lemma scan_strings_tags:
  "set (fst (scan_strings d acc)) \<subseteq>
     set (fst acc) \<union> {''potential_sql_injection'', ''potential_script_injection''}"
proof (induction d arbitrary: acc)
  case Nil
  then show ?case by auto
next
  case (Cons kv d)
  obtain key v where kv: "kv = (key, v)" by (cases kv)
  obtain found m where acc: "acc = (found, m)" by (cases acc)
  have "\<exists>acc'. scan_strings (kv # d) acc = scan_strings d acc' \<and>
          set (fst acc') \<subseteq>
            set found \<union> {''potential_sql_injection'', ''potential_script_injection''}"
    unfolding kv acc by (cases v) (auto simp: Let_def)
  then obtain acc' where
    "scan_strings (kv # d) acc = scan_strings d acc'"
    "set (fst acc') \<subseteq>
       set found \<union> {''potential_sql_injection'', ''potential_script_injection''}"
    by blast
  with Cons.IH[of acc'] show ?case by (auto simp: acc)
qed

lemma quality_tags:
  "set (tags_of (check_data_quality d)) \<subseteq>
     {''excessive_null_values'', ''potential_sql_injection'', ''potential_script_injection''}"
proof -
  define start where "start =
       (if length d > 0 \<and>
           real (length (filter (\<lambda>(key, v). is_null_value v) d)) / real (length d)
             > null_percentage_threshold
        then ([''excessive_null_values''],
              max 0 (real (length (filter (\<lambda>(key, v). is_null_value v) d)) / real (length d)))
        else ([], 0))"
  have "set (fst start) \<subseteq> {''excessive_null_values''}" by (simp add: start_def)
  with scan_strings_tags[of d start]
  have "set (fst (scan_strings d start)) \<subseteq>
     {''excessive_null_values'', ''potential_sql_injection'', ''potential_script_injection''}"
    by blast
  moreover have "tags_of (check_data_quality d) = fst (scan_strings d start)"
    by (simp add: check_data_quality_def tags_of_def Let_def start_def split: prod.splits)
  ultimately show ?thesis by simp
qed

lemma pattern_tags:
  "check_pattern_anomaly parse_iso agent d st = Inr p \<Longrightarrow>
   set (tags_of p) \<subseteq> {''rapid_succession_events'', ''invalid_timestamp_format''}"
  by (auto simp: check_pattern_anomaly_def invalid_timestamp_def Let_def tags_of_def
           split: option.splits json.splits if_splits)

lemma type_tags:
  "tag \<in> set (tags_of (check_type_anomalies d)) \<Longrightarrow> take 3 tag = ''une''"
  by (auto simp: check_type_anomalies_def Let_def tags_of_def split: if_splits)

lemma report_tags:
  assumes "detect_anomalies parse_iso agent d st = Inr r"
  shows "\<exists>a p. check_amount_anomaly agent d st = Inr a \<and>
     check_pattern_anomaly parse_iso agent d st = Inr p \<and>
     report_anomalies r =
       tags_of a @ tags_of p @
       tags_of (check_data_quality d) @ tags_of (check_type_anomalies d)"
proof -
  from assms obtain a where a: "check_amount_anomaly agent d st = Inr a"
    by (auto simp: detect_anomalies_def Let_def split: sum.splits)
  from assms a obtain p where p: "check_pattern_anomaly parse_iso agent d st = Inr p"
    by (auto simp: detect_anomalies_def Let_def split: sum.splits)
  have "report_anomalies r =
          fst (absorb (absorb (absorb (absorb ([], 0) a) p)
                         (check_data_quality d)) (check_type_anomalies d))"
    using assms a p by (auto simp: detect_anomalies_def Let_def split: prod.splits)
  then show ?thesis using a p by (simp add: absorb_tags)
qed

subsection \<open>The amount sub-detector below ten samples\<close>

lemma sum_list_replicate_real: "sum_list (replicate n (x::real)) = real n * x"
  by (induction n) (simp_all add: algebra_simps)

lemma few_samples_silent:
  "check_amount_anomaly few_samples [(''amount'', JInt 10000000)] ''webhook'' = Inr None"
  by (simp add: few_samples_def detector_defs)

text \<open>With ten samples of 100 in the window the same record does fire.\<close>

lemma ten_samples_fire:
  "check_amount_anomaly ten_samples [(''amount'', JInt 10000000)] ''webhook'' =
     Inr (Some \<lparr>anomalies = [''unusual_amount_amount''], score = 1\<rparr>)"
  by (simp add: ten_samples_def detector_defs np_mean_def np_std_def sum_list_replicate_real)

lemma few_samples_report:
  "detect_anomalies iso_table few_samples [(''amount'', JInt 10000000)] ''webhook'' =
     Inr \<lparr>is_normal = True, report_anomalies = [], anomaly_score = 0\<rparr>"
  using few_samples_silent
  by (simp add: detect_anomalies_def check_pattern_anomaly_def lookup_def
        check_data_quality_def null_percentage_threshold_def check_type_anomalies_def
        expected_types_def type_mismatch_def anomaly_threshold_def)

text \<open>
  While the amount window of the schema type holds fewer than \<open>min_samples\<close> (10) samples,
  \<^verbatim>\<open>_check_amount_anomaly\<close> never returns an anomaly: it returns \<^verbatim>\<open>None\<close> when every
  numeric amount field of the record converts to a float and raises \<^verbatim>\<open>OverflowError\<close>
  otherwise; and no report of \<^verbatim>\<open>_detect_anomalies\<close> contains a tag of the form
  \<open>unusual_<field>_amount\<close>.
\<close>

lemma below_min_samples_no_amount_anomaly:
  assumes "length (historical_amounts agent (amounts_key schema_type)) < min_samples"
  shows "check_amount_anomaly agent d schema_type =
           (if amount_overflow d
            then Inl (OverflowError ''int too large to convert to float'') else Inr None)"
    and "detect_anomalies parse_iso agent d schema_type = Inr report \<Longrightarrow>
         ''unusual_'' @ field @ ''_amount'' \<notin> set (report_anomalies report)"
proof -
  show a: "check_amount_anomaly agent d schema_type =
           (if amount_overflow d
            then Inl (OverflowError ''int too large to convert to float'') else Inr None)"
    using assms by (simp add: check_amount_anomaly_def amount_overflow_def check_amount_fields_few)
  show "''unusual_'' @ field @ ''_amount'' \<notin> set (report_anomalies report)"
    if r: "detect_anomalies parse_iso agent d schema_type = Inr report"
  proof
    assume mem: "''unusual_'' @ field @ ''_amount'' \<in> set (report_anomalies report)"
    from report_tags[OF r] obtain a' p where
      a': "check_amount_anomaly agent d schema_type = Inr a'" and
      p: "check_pattern_anomaly parse_iso agent d schema_type = Inr p" and
      tags: "report_anomalies report =
         tags_of a' @ tags_of p @ tags_of (check_data_quality d) @ tags_of (check_type_anomalies d)"
      by blast
    from a a' have "a' = None" by (simp split: if_splits)
    with mem have "''unusual_'' @ field @ ''_amount'' \<in> set (tags_of p) \<or>
        ''unusual_'' @ field @ ''_amount'' \<in> set (tags_of (check_data_quality d)) \<or>
        ''unusual_'' @ field @ ''_amount'' \<in> set (tags_of (check_type_anomalies d))"
      unfolding tags by (auto simp: tags_of_def)
    then show False
    proof (elim disjE)
      assume "''unusual_'' @ field @ ''_amount'' \<in> set (tags_of p)"
      with pattern_tags[OF p] show False by auto
    next
      assume "''unusual_'' @ field @ ''_amount'' \<in> set (tags_of (check_data_quality d))"
      with quality_tags[of d] show False by auto
    next
      assume "''unusual_'' @ field @ ''_amount'' \<in> set (tags_of (check_type_anomalies d))"
      from type_tags[OF this] show False by simp
    qed
  qed
qed

text \<open>
  C3. The claim that with fewer than \<open>min_samples\<close> samples \<^verbatim>\<open>_check_amount_anomaly\<close>
  returns no anomaly whatever the magnitude of the amount fails on the record
  \<^verbatim>\<open>{"amount": 10**400}\<close>, which \<^verbatim>\<open>json.loads\<close> accepts, with three samples in the window:
  \<^verbatim>\<open>float(data["amount"])\<close> is evaluated before the number of samples is tested and raises
  \<^verbatim>\<open>OverflowError\<close>. The sub-detector does not return, \<^verbatim>\<open>_detect_anomalies\<close> passes the
  exception on, and \<^verbatim>\<open>process_json\<close> ends with it instead of a report, leaving the agent
  and the store as they were.
\<close>

theorem amount_detector_raises_on_large_integer:
  "length (historical_amounts few_samples (amounts_key ''webhook'')) = 3 \<and>
   check_amount_anomaly few_samples [(''amount'', JInt (10 ^ 400))] ''webhook''
     = Inl (OverflowError ''int too large to convert to float'') \<and>
   detect_anomalies iso_table few_samples [(''amount'', JInt (10 ^ 400))] ''webhook''
     = Inl (OverflowError ''int too large to convert to float'') \<and>
   process_json sample_runtime 0 few_samples store_up
       [(''amount'', JInt (10 ^ 400))] ''webhook''
     = (Inl (OverflowError ''int too large to convert to float''), few_samples, store_up)"
proof -
  have h: "length (historical_amounts few_samples (amounts_key ''webhook'')) = 3"
    by (simp add: few_samples_def amounts_key_def)
  have a: "check_amount_anomaly few_samples [(''amount'', JInt (10 ^ 400))] ''webhook''
             = Inl (OverflowError ''int too large to convert to float'')"
    by (simp add: check_amount_anomaly_def amount_fields_def numeric_field_def lookup_def
          float_of_int_def double_limit_def)
  then have d: "detect_anomalies iso_table few_samples [(''amount'', JInt (10 ^ 400))] ''webhook''
                  = Inl (OverflowError ''int too large to convert to float'')"
    by (simp add: detect_anomalies_def)
  have "fromisoformat sample_runtime = iso_table" by (simp add: sample_runtime_def)
  with d have "process_json sample_runtime 0 few_samples store_up
                 [(''amount'', JInt (10 ^ 400))] ''webhook''
     = (Inl (OverflowError ''int too large to convert to float''), few_samples, store_up)"
    by (simp add: process_json_def Let_def)
  with h a d show ?thesis by simp
qed

subsection \<open>Malformed timestamps\<close>

text \<open>
  A timestamp that is a string which \<^verbatim>\<open>fromisoformat\<close> rejects gives the fixed tag
  \<open>invalid_timestamp_format\<close> with sub-score 0.5.
\<close>

lemma pattern_malformed_string:
  "lookup d ''timestamp'' = Some (JStr s) \<Longrightarrow> parse_iso (replace_Z s) = None \<Longrightarrow>
   check_pattern_anomaly parse_iso agent d st = Inr (Some invalid_timestamp)"
  by (simp add: check_pattern_anomaly_def)

text \<open>A timestamp of any other type makes the sub-detector raise.\<close>

lemma pattern_non_string:
  "lookup d ''timestamp'' = Some v \<Longrightarrow> \<not> isinstance_str v \<Longrightarrow>
   check_pattern_anomaly parse_iso agent d st = Inl (no_attribute (type_name v) ''replace'')"
  by (cases v) (simp_all add: check_pattern_anomaly_def)

text \<open>
  With no timestamp, or a string for one, the sub-detector and the whole scoring pass
  return.
\<close>

lemma pattern_returns_for_strings:
  assumes "lookup d ''timestamp'' = None \<or> (\<exists>s. lookup d ''timestamp'' = Some (JStr s))"
  shows "\<exists>p. check_pattern_anomaly parse_iso agent d st = Inr p"
  using assms
  by (auto simp: check_pattern_anomaly_def Let_def split: option.splits)

lemma detect_anomalies_returns:
  assumes "lookup d ''timestamp'' = None \<or> (\<exists>s. lookup d ''timestamp'' = Some (JStr s))"
      and "check_amount_anomaly agent d st = Inr a"
  shows "\<exists>report. detect_anomalies parse_iso agent d st = Inr report"
proof -
  from pattern_returns_for_strings[OF assms(1)] obtain p
    where "check_pattern_anomaly parse_iso agent d st = Inr p" by blast
  with assms(2) show ?thesis
    by (simp add: detect_anomalies_def Let_def split: prod.splits)
qed

text \<open>
  C6. The claim that a malformed timestamp of whatever runtime type yields the tag
  \<open>invalid_timestamp_format\<close> and that no sub-detector throws fails on the record
  \<^verbatim>\<open>{"timestamp": 1700000000}\<close>: \<^verbatim>\<open>_check_pattern_anomaly\<close> raises \<^verbatim>\<open>AttributeError\<close>,
  \<^verbatim>\<open>_detect_anomalies\<close> passes it on, and \<^verbatim>\<open>process_json\<close> ends with the exception instead
  of a report, leaving the agent and the store as they were.
\<close>

theorem non_string_timestamp_raises:
  "check_pattern_anomaly iso_table new_JSONAgent [(''timestamp'', JInt 1700000000)] ''webhook''
     = Inl (no_attribute ''int'' ''replace'') \<and>
   detect_anomalies iso_table new_JSONAgent [(''timestamp'', JInt 1700000000)] ''webhook''
     = Inl (no_attribute ''int'' ''replace'') \<and>
   process_json sample_runtime 0 new_JSONAgent store_up
       [(''timestamp'', JInt 1700000000)] ''webhook''
     = (Inl (no_attribute ''int'' ''replace''), new_JSONAgent, store_up)"
proof -
  have p: "check_pattern_anomaly iso_table new_JSONAgent
             [(''timestamp'', JInt 1700000000)] ''webhook''
           = Inl (no_attribute ''int'' ''replace'')"
    using pattern_non_string[where v = "JInt 1700000000" and d = "[(''timestamp'', JInt 1700000000)]"]
    by (simp add: lookup_def)
  moreover have "check_amount_anomaly new_JSONAgent
                   [(''timestamp'', JInt 1700000000)] ''webhook'' = Inr None"
    by (simp add: check_amount_anomaly_def amount_fields_def numeric_field_def lookup_def)
  ultimately have d: "detect_anomalies iso_table new_JSONAgent
                  [(''timestamp'', JInt 1700000000)] ''webhook''
                = Inl (no_attribute ''int'' ''replace'')"
    by (simp add: detect_anomalies_def Let_def)
  have "fromisoformat sample_runtime = iso_table" by (simp add: sample_runtime_def)
  with d have "process_json sample_runtime 0 new_JSONAgent store_up
                 [(''timestamp'', JInt 1700000000)] ''webhook''
     = (Inl (no_attribute ''int'' ''replace''), new_JSONAgent, store_up)"
    by (simp add: process_json_def Let_def)
  with p d show ?thesis by simp
qed

subsection \<open>The high-risk tags\<close>

lemma amount_tags_not_high_risk:
  "check_amount_anomaly agent d st = Inr a \<Longrightarrow> tag \<in> set (tags_of a) \<Longrightarrow>
   tag \<notin> set high_risk_anomalies"
  by (drule amount_tags) (auto simp: high_risk_anomalies_def)

text \<open>
  A result that carries one of the listed tags gets one \<open>risk_alert\<close> request of critical
  priority.
\<close>

lemma risk_alert_for_listed_tags:
  assumes "tag \<in> set high_risk_anomalies" and "tag \<in> set (result_anomalies result)"
  shows "filter (\<lambda>a. action_type a = RISK_ALERT) (generate_actions rt clock result d st)
           = [risk_alert_request rt clock result d st] \<and>
         priority (risk_alert_request rt clock result d st) = CRITICAL"
proof -
  from assms have "list_ex (\<lambda>anomaly. anomaly \<in> set (result_anomalies result)) high_risk_anomalies"
    by (auto simp: list_ex_iff)
  then show ?thesis
    by (simp add: generate_actions_def flag_anomaly_request_def risk_alert_request_def)
qed

text \<open>
  C5. The high-risk list of \<^verbatim>\<open>_generate_actions\<close> holds the literal \<open>unusual_amount\<close>,
  and the test is equality of whole tags. The amount sub-detector emits
  \<open>unusual_<field>_amount\<close> for one of the four amount fields, never that literal: a result
  whose tags are those of a firing amount sub-detector gets no \<open>risk_alert\<close> request, against
  the claim.
\<close>

theorem unusual_amount_tag_gets_no_risk_alert:
  assumes "check_amount_anomaly agent d schema_type = Inr (Some f)"
      and "result_anomalies result = anomalies f"
  shows "\<not> list_ex (\<lambda>a. action_type a = RISK_ALERT)
             (generate_actions rt clock result d schema_type)"
proof -
  have "tag \<notin> set high_risk_anomalies" if "tag \<in> set (result_anomalies result)" for tag
    using that assms amount_tags_not_high_risk[of agent d schema_type "Some f" tag]
    by (simp add: tags_of_def)
  then have "\<not> list_ex (\<lambda>anomaly. anomaly \<in> set (result_anomalies result)) high_risk_anomalies"
    by (auto simp: list_ex_iff)
  then show ?thesis
    by (simp add: generate_actions_def flag_anomaly_request_def)
qed

theorem unusual_amount_tag_gets_no_risk_alert_witness:
  "check_amount_anomaly ten_samples [(''amount'', JInt 10000000)] ''webhook''
     = Inr (Some \<lparr>anomalies = [''unusual_amount_amount''], score = 1\<rparr>) \<and>
   map action_type
     (generate_actions sample_runtime 0
        \<lparr>is_valid = False, schema_errors = [], result_anomalies = [''unusual_amount_amount''],
         result_anomaly_score = 1, missing_fields = [], type_errors = []\<rparr>
        [(''amount'', JInt 10000000)] ''webhook'') = [FLAG_ANOMALY]"
proof -
  let ?r = "\<lparr>is_valid = False, schema_errors = [],
             result_anomalies = [''unusual_amount_amount''],
             result_anomaly_score = 1, missing_fields = [], type_errors = []\<rparr>"
  have "\<not> list_ex (\<lambda>a. action_type a = RISK_ALERT)
           (generate_actions sample_runtime 0 ?r [(''amount'', JInt 10000000)] ''webhook'')"
    by (rule unusual_amount_tag_gets_no_risk_alert[OF ten_samples_fire]) simp
  then show ?thesis
    using ten_samples_fire
    by (simp add: generate_actions_def flag_anomaly_request_def risk_alert_request_def
             split: if_splits)
qed

subsection \<open>The generic anomaly request\<close>

lemma absorb_score_ge: "snd acc \<le> snd (absorb acc r)"
  by (cases acc; cases r) simp_all

lemma detect_score_range:
  assumes "detect_anomalies parse_iso agent d st = Inr r"
  shows "0 \<le> anomaly_score r \<and> anomaly_score r \<le> 1"
proof -
  from assms obtain a where a: "check_amount_anomaly agent d st = Inr a"
    by (auto simp: detect_anomalies_def Let_def split: sum.splits)
  from assms a obtain p where p: "check_pattern_anomaly parse_iso agent d st = Inr p"
    by (auto simp: detect_anomalies_def Let_def split: sum.splits)
  define s where "s = snd (absorb (absorb (absorb (absorb ([], 0) a) p)
                         (check_data_quality d)) (check_type_anomalies d))"
  have "anomaly_score r = min s 1"
    using assms a p by (auto simp: detect_anomalies_def Let_def s_def split: prod.splits)
  moreover have "0 \<le> s"
    unfolding s_def
    using absorb_score_ge[of "([], 0)" a]
          absorb_score_ge[of "absorb ([], 0) a" p]
          absorb_score_ge[of "absorb (absorb ([], 0) a) p" "check_data_quality d"]
          absorb_score_ge[of "absorb (absorb (absorb ([], 0) a) p) (check_data_quality d)" "check_type_anomalies d"]
    by simp
  ultimately show ?thesis by simp
qed

lemma detect_normal_iff:
  assumes "detect_anomalies parse_iso agent d st = Inr r"
  shows "is_normal r \<longleftrightarrow> anomaly_score r < anomaly_threshold"
proof -
  from assms obtain a where a: "check_amount_anomaly agent d st = Inr a"
    by (auto simp: detect_anomalies_def Let_def split: sum.splits)
  from assms a obtain p where p: "check_pattern_anomaly parse_iso agent d st = Inr p"
    by (auto simp: detect_anomalies_def Let_def split: sum.splits)
  then show ?thesis using assms a
    by (auto simp: detect_anomalies_def Let_def anomaly_threshold_def min_def split: prod.splits if_splits)
qed

lemma combine_results_ok:
  assumes "detect_anomalies parse_iso agent d st = Inr r"
  shows "combine_results v r =
     Inr \<lparr>is_valid = (is_valid v \<and> is_normal r), schema_errors = schema_errors v,
           result_anomalies = report_anomalies r, result_anomaly_score = anomaly_score r,
           missing_fields = missing_fields v, type_errors = type_errors v\<rparr>"
  using detect_score_range[OF assms]
  by (simp add: combine_results_def new_JSONValidationResult_def)

text \<open>
  Taken alone, \<^verbatim>\<open>_generate_actions\<close> tests the score with \<open>>\<close>: a valid result whose
  score does not exceed the threshold is not flagged. \<^verbatim>\<open>process_json\<close> never builds a valid
  result from a report that is not normal.
\<close>

lemma valid_result_at_threshold_not_flagged:
  assumes "is_valid result" and "result_anomaly_score result \<le> anomaly_threshold"
  shows "filter (\<lambda>a. action_type a = FLAG_ANOMALY) (generate_actions rt clock result d st) = []"
  using assms
  by (simp add: generate_actions_def flag_anomaly_request_def risk_alert_request_def)

text \<open>
  C7. When \<^verbatim>\<open>_detect_anomalies\<close> reports a record as not normal, which is the case exactly
  when its score is at least the threshold 0.8, the result that \<^verbatim>\<open>process_json\<close> builds
  is not valid, and \<^verbatim>\<open>_generate_actions\<close> emits exactly one \<open>flag_anomaly\<close> request for it,
  with priority high when the score exceeds 0.8 and medium otherwise; so it does at the
  score 0.8 itself.
\<close>

theorem abnormal_report_is_flagged:
  assumes "detect_anomalies parse_iso agent d schema_type = Inr report"
      and "\<not> is_normal report"
  shows "\<exists>combined.
           combine_results validation report = Inr combined \<and>
           anomaly_threshold \<le> anomaly_score report \<and>
           filter (\<lambda>a. action_type a = FLAG_ANOMALY)
                  (generate_actions rt clock combined d schema_type)
             = [flag_anomaly_request rt clock combined d schema_type] \<and>
           priority (flag_anomaly_request rt clock combined d schema_type)
             = (if anomaly_score report > 0.8 then HIGH else MEDIUM)"
proof -
  let ?c = "\<lparr>is_valid = (is_valid validation \<and> is_normal report),
             schema_errors = schema_errors validation,
             result_anomalies = report_anomalies report,
             result_anomaly_score = anomaly_score report,
             missing_fields = missing_fields validation,
             type_errors = type_errors validation\<rparr>"
  have c: "combine_results validation report = Inr ?c"
    by (rule combine_results_ok[OF assms(1)])
  have t: "anomaly_threshold \<le> anomaly_score report"
    using detect_normal_iff[OF assms(1)] assms(2) by simp
  have "\<not> is_valid ?c" using assms(2) by simp
  then have f: "filter (\<lambda>a. action_type a = FLAG_ANOMALY)
                  (generate_actions rt clock ?c d schema_type)
             = [flag_anomaly_request rt clock ?c d schema_type]"
    by (simp add: generate_actions_def flag_anomaly_request_def risk_alert_request_def)
  have p: "priority (flag_anomaly_request rt clock ?c d schema_type)
             = (if anomaly_score report > 0.8 then HIGH else MEDIUM)"
    by (simp add: flag_anomaly_request_def)
  from c t f p show ?thesis by blast
qed

lemma four_mismatches_report:
  "detect_anomalies iso_table new_JSONAgent four_mismatches ''webhook'' =
     Inr \<lparr>is_normal = False,
          report_anomalies = [''unexpected_type_id'', ''unexpected_type_user_id'',
                              ''unexpected_type_count'', ''unexpected_type_email''],
          anomaly_score = 8 / 10\<rparr>"
  by (simp add: four_mismatches_def detector_defs)

theorem abnormal_report_is_flagged_witness:
  "\<exists>report combined.
     detect_anomalies iso_table new_JSONAgent four_mismatches ''webhook'' = Inr report \<and>
     \<not> is_normal report \<and> anomaly_score report = 8 / 10 \<and>
     combine_results (validate_schema sample_runtime four_mismatches ''webhook'') report = Inr combined \<and>
     map action_type (generate_actions sample_runtime 0 combined four_mismatches ''webhook'') = [FLAG_ANOMALY] \<and>
     map priority (generate_actions sample_runtime 0 combined four_mismatches ''webhook'') = [MEDIUM]"
proof -
  let ?r = "\<lparr>is_normal = False,
          report_anomalies = [''unexpected_type_id'', ''unexpected_type_user_id'',
                              ''unexpected_type_count'', ''unexpected_type_email''],
          anomaly_score = 8 / 10\<rparr>"
  have n: "\<not> is_normal ?r" by simp
  from abnormal_report_is_flagged [OF four_mismatches_report n,
         of "validate_schema sample_runtime four_mismatches ''webhook''" sample_runtime 0]
  obtain combined where
    c: "combine_results (validate_schema sample_runtime four_mismatches ''webhook'') ?r = Inr combined"
    and f: "filter (\<lambda>a. action_type a = FLAG_ANOMALY)
                  (generate_actions sample_runtime 0 combined four_mismatches ''webhook'')
             = [flag_anomaly_request sample_runtime 0 combined four_mismatches ''webhook'']"
    and p: "priority (flag_anomaly_request sample_runtime 0 combined four_mismatches ''webhook'') = MEDIUM"
    by auto
  have ra: "result_anomalies combined = report_anomalies ?r"
    using c by (auto simp: combine_results_def new_JSONValidationResult_def split: if_splits)
  have g: "generate_actions sample_runtime 0 combined four_mismatches ''webhook''
            = [flag_anomaly_request sample_runtime 0 combined four_mismatches ''webhook'']"
    using f ra
    by (auto simp: generate_actions_def high_risk_anomalies_def flag_anomaly_request_def split: if_splits)
  show ?thesis
    using four_mismatches_report c g p by (simp add: flag_anomaly_request_def)
qed

subsection \<open>The history windows are bounded and first-in first-out\<close>

lemma append_capped_last_n: "append_capped cap h x = last_n cap (h @ [x])"
  by (simp add: append_capped_def last_n_def Let_def)

lemma last_n_length: "length (last_n n xs) = min n (length xs)"
  by (simp add: last_n_def)

lemma last_n_append: "last_n n (last_n n xs @ ys) = last_n n (xs @ ys)"
proof -
  have "length xs + length ys - (length xs - n + n) + (length xs - n)
          = length xs + length ys - n"
    by arith
  then show ?thesis by (simp add: last_n_def)
qed

lemma last_n_id: "length xs \<le> n \<Longrightarrow> last_n n xs = xs"
  by (simp add: last_n_def)

lemma store_amounts_amounts:
  "historical_amounts (fst (store_amounts agent d st fs)) k =
     (if k = amounts_key st \<and> converted_amounts d fs \<noteq> []
      then last_n 1000 (historical_amounts agent k @ converted_amounts d fs)
      else historical_amounts agent k)"
proof (induction fs arbitrary: agent)
  case Nil then show ?case by simp
next
  case (Cons f fs)
  show ?case
  proof (cases "numeric_field d f")
    case None
    then show ?thesis using Cons.IH[of agent] by simp
  next
    case (Some r)
    show ?thesis
    proof (cases r)
      case (Inl e)
      with Some show ?thesis by simp
    next
      case (Inr a)
      with Some show ?thesis
        using Cons.IH[of "agent\<lparr>historical_amounts :=
                          (historical_amounts agent)
                            (amounts_key st := append_capped 1000 (historical_amounts agent (amounts_key st)) a)\<rparr>"]
        by (auto simp: Let_def append_capped_last_n last_n_append)
    qed
  qed
qed

lemma store_amounts_timestamps:
  "historical_timestamps (fst (store_amounts agent d st fs)) = historical_timestamps agent"
  by (induction fs arbitrary: agent) (auto simp: Let_def split: option.splits sum.splits)

lemma store_amounts_raises:
  "snd (store_amounts agent d st fs) \<noteq> None \<longleftrightarrow> list_ex (conversion_raises d) fs"
  by (induction fs arbitrary: agent)
     (auto simp: Let_def conversion_raises_def split: option.splits sum.splits)

lemma update_keeps_stored_amounts:
  "historical_amounts (fst (update_historical_data parse_iso agent d st)) =
     historical_amounts (fst (store_amounts agent d st amount_fields))"
  by (simp add: update_historical_data_def Let_def split: prod.splits option.splits json.splits)

lemma update_amounts:
  "historical_amounts (fst (update_historical_data parse_iso agent d st)) k =
     (if k = amounts_key st \<and> amount_values d \<noteq> []
      then last_n 1000 (historical_amounts agent k @ amount_values d)
      else historical_amounts agent k)"
  unfolding update_keeps_stored_amounts amount_values_def by (rule store_amounts_amounts)

lemma update_timestamps:
  "historical_timestamps (fst (update_historical_data parse_iso agent d st)) k =
     (if k = timestamps_key st \<and> timestamp_values parse_iso d \<noteq> []
      then last_n 100 (historical_timestamps agent k @ timestamp_values parse_iso d)
      else historical_timestamps agent k)"
proof -
  obtain agent1 err where s: "store_amounts agent d st amount_fields = (agent1, err)"
    by (cases "store_amounts agent d st amount_fields")
  have ts: "historical_timestamps agent1 = historical_timestamps agent"
    using store_amounts_timestamps[of agent d st amount_fields] s by simp
  have err: "err \<noteq> None \<longleftrightarrow> amount_overflow d"
    using store_amounts_raises[of agent d st amount_fields] s by (simp add: amount_overflow_def)
  show ?thesis
  proof (cases err)
    case None
    with err have "\<not> amount_overflow d" by simp
    with None show ?thesis
      by (simp add: update_historical_data_def s ts Let_def timestamp_values_def
            append_capped_last_n split: option.splits json.splits)
  next
    case (Some e)
    with err have "amount_overflow d" by simp
    with Some show ?thesis
      by (simp add: update_historical_data_def s ts timestamp_values_def)
  qed
qed

lemma feed_amounts:
  "length (historical_amounts agent k) \<le> 1000 \<Longrightarrow>
   historical_amounts (feed parse_iso agent calls) k =
     last_n 1000 (historical_amounts agent k @ amounts_fed k calls)"
proof (induction calls arbitrary: agent)
  case Nil then show ?case by (simp add: amounts_fed_def last_n_id)
next
  case (Cons c calls)
  obtain d st where c: "c = (d, st)" by (cases c)
  let ?a = "fst (update_historical_data parse_iso agent d st)"
  have len: "length (historical_amounts ?a k) \<le> 1000"
    using Cons.prems by (simp add: update_amounts last_n_length)
  show ?case
    using Cons.IH[OF len] Cons.prems
    by (auto simp: c amounts_fed_def update_amounts last_n_append last_n_id)
qed

lemma feed_timestamps:
  "length (historical_timestamps agent k) \<le> 100 \<Longrightarrow>
   historical_timestamps (feed parse_iso agent calls) k =
     last_n 100 (historical_timestamps agent k @ timestamps_fed parse_iso k calls)"
proof (induction calls arbitrary: agent)
  case Nil then show ?case by (simp add: timestamps_fed_def last_n_id)
next
  case (Cons c calls)
  obtain d st where c: "c = (d, st)" by (cases c)
  let ?a = "fst (update_historical_data parse_iso agent d st)"
  have len: "length (historical_timestamps ?a k) \<le> 100"
    using Cons.prems by (simp add: update_timestamps last_n_length)
  show ?case
    using Cons.IH[OF len] Cons.prems
    by (auto simp: c timestamps_fed_def update_timestamps last_n_append last_n_id)
qed

text \<open>
  C2. After any sequence of calls of \<^verbatim>\<open>_update_historical_data\<close> on a fresh agent, every
  amount window holds at most 1000 and every timestamp window at most 100 entries, and
  each window holds the most recent of the values appended under its key, in the order in
  which they were appended: eviction is oldest first. After 1500 amounts for one key the
  window is the last 1000 of them.
\<close>

theorem history_windows_bounded_fifo:
  "length (historical_amounts (feed parse_iso new_JSONAgent calls) k) \<le> 1000 \<and>
   length (historical_timestamps (feed parse_iso new_JSONAgent calls) k) \<le> 100 \<and>
   historical_amounts (feed parse_iso new_JSONAgent calls) k = last_n 1000 (amounts_fed k calls) \<and>
   historical_timestamps (feed parse_iso new_JSONAgent calls) k
     = last_n 100 (timestamps_fed parse_iso k calls)"
proof -
  have a: "historical_amounts (feed parse_iso new_JSONAgent calls) k = last_n 1000 (amounts_fed k calls)"
    using feed_amounts[of new_JSONAgent k parse_iso calls] by (simp add: new_JSONAgent_def)
  have t: "historical_timestamps (feed parse_iso new_JSONAgent calls) k
     = last_n 100 (timestamps_fed parse_iso k calls)"
    using feed_timestamps[of new_JSONAgent k parse_iso calls] by (simp add: new_JSONAgent_def)
  show ?thesis unfolding a t by (simp add: last_n_length)
qed

lemma amounts_fed_amount_calls:
  assumes "n \<le> 2 ^ 53"
  shows "amounts_fed ''webhook_amounts'' (amount_calls n) = map real [0..<n]"
proof -
  have "amounts_fed ''webhook_amounts''
          (map (\<lambda>i. ([(''amount'', JInt (int i))], ''webhook'')) xs) = map real xs"
    if "\<forall>i \<in> set xs. i < 2 ^ 53" for xs
    using that
  proof (induction xs)
    case Nil
    then show ?case by (simp add: amounts_fed_def)
  next
    case (Cons i xs)
    then have "i < 2 ^ 53" by simp
    then have "\<bar>int i\<bar> < 2 ^ 53" by (simp flip: of_nat_less_iff)
    then have "float_of_int (int i) = Inr (real i)" by (simp add: float_of_int_exact)
    then have "amount_values [(''amount'', JInt (int i))] = [real i]"
      by (simp add: amount_values_def amount_fields_def numeric_field_def lookup_def)
    with Cons show ?case by (simp add: amounts_fed_def amounts_key_def)
  qed
  moreover have "\<forall>i \<in> set [0..<n]. i < 2 ^ 53" using assms by auto
  ultimately show ?thesis by (simp add: amount_calls_def)
qed

theorem history_windows_bounded_fifo_witness:
  "historical_amounts (feed iso_table new_JSONAgent (amount_calls 1500)) ''webhook_amounts''
     = map real [500..<1500] \<and>
   length (historical_amounts (feed iso_table new_JSONAgent (amount_calls 1500)) ''webhook_amounts'')
     = 1000"
proof -
  from history_windows_bounded_fifo [of iso_table "amount_calls 1500" "''webhook_amounts''"]
  have "historical_amounts (feed iso_table new_JSONAgent (amount_calls 1500)) ''webhook_amounts''
          = last_n 1000 (amounts_fed ''webhook_amounts'' (amount_calls 1500))"
    by blast
  also have "\<dots> = map real [500..<1500]"
    by (simp add: amounts_fed_amount_calls last_n_def drop_map)
  finally show ?thesis by simp
qed

subsection \<open>What a scored record adds to the history\<close>

lemma process_json_agent:
  assumes "detect_anomalies (fromisoformat rt) agent d st = Inr report"
  shows "fst (snd (process_json rt clock agent ms d st)) =
           fst (update_historical_data (fromisoformat rt) agent d st)"
proof -
  obtain agent' err where u: "update_historical_data (fromisoformat rt) agent d st = (agent', err)"
    by (cases "update_historical_data (fromisoformat rt) agent d st")
  obtain c where c: "combine_results (validate_schema rt d st) report = Inr c"
    using combine_results_ok[OF assms] by blast
  show ?thesis
    by (simp add: process_json_def Let_def assms c u split: option.splits sum.splits)
qed

lemma last_n_append_short:
  assumes "length ys \<le> n"
  shows "last_n n (xs @ ys) = last_n (n - length ys) xs @ ys"
proof -
  from assms have e: "length xs + length ys - n = length xs - (n - length ys)" by arith
  have "last_n n (xs @ ys) = drop (length xs - (n - length ys)) (xs @ ys)"
    unfolding last_n_def length_append e ..
  also have "\<dots> = drop (length xs - (n - length ys)) xs @ ys"
    by simp
  finally show ?thesis by (simp only: last_n_def)
qed

lemma suffix_last_n: "suffix (last_n n xs) xs"
  by (simp add: last_n_def suffix_drop)

lemma length_converted_amounts: "length (converted_amounts d fs) \<le> length fs"
  by (induction fs) (auto split: option.splits sum.splits)

lemma length_amount_values: "length (amount_values d) \<le> 4"
  using length_converted_amounts[of d amount_fields]
  by (simp add: amount_values_def amount_fields_def)

text \<open>
  Whenever scoring completes for a parsed record, \<^verbatim>\<open>process_json\<close> leaves an amount
  window that ends with what \<^verbatim>\<open>_update_historical_data\<close> has appended behind a suffix of
  the old window, the whole old window when there is room. Nothing in this depends on the
  report: an anomalous record is stored like a normal one.
\<close>

lemma scored_record_extends_window:
  assumes "detect_anomalies (fromisoformat rt) agent d schema_type = Inr report"
  shows "\<exists>kept.
           suffix kept (historical_amounts agent (amounts_key schema_type)) \<and>
           historical_amounts (fst (snd (process_json rt clock agent ms d schema_type)))
               (amounts_key schema_type)
             = kept @ amount_values d \<and>
           (length (historical_amounts agent (amounts_key schema_type))
              + length (amount_values d) \<le> 1000
            \<longrightarrow> kept = historical_amounts agent (amounts_key schema_type))"
proof -
  let ?old = "historical_amounts agent (amounts_key schema_type)"
  let ?new = "historical_amounts (fst (snd (process_json rt clock agent ms d schema_type)))
               (amounts_key schema_type)"
  have new: "?new = (if amount_values d \<noteq> [] then last_n 1000 (?old @ amount_values d) else ?old)"
    by (simp add: process_json_agent[OF assms] update_amounts)
  show ?thesis
  proof (cases "amount_values d = []")
    case True
    with new have "?new = ?old @ amount_values d" by simp
    then show ?thesis by (intro exI[of _ ?old]) simp
  next
    case False
    have "length (amount_values d) \<le> 1000" using length_amount_values[of d] by simp
    then have 1: "?new = last_n (1000 - length (amount_values d)) ?old @ amount_values d"
      using new False by (simp add: last_n_append_short)
    have 2: "suffix (last_n (1000 - length (amount_values d)) ?old) ?old"
      by (rule suffix_last_n)
    have 3: "length ?old + length (amount_values d) \<le> 1000 \<longrightarrow>
                   last_n (1000 - length (amount_values d)) ?old = ?old"
      by (simp add: last_n_def)
    show ?thesis
      by (intro exI[of _ "last_n (1000 - length (amount_values d)) ?old"] conjI) (rule 2, rule 1, rule 3)
  qed
qed

text \<open>
  What is appended, written out: when no conversion raises, it is the float of each of
  \<open>amount\<close>, \<open>total\<close>, \<open>value\<close> and \<open>price\<close>, in this order, that the record holds as an
  \<^verbatim>\<open>int\<close>, a \<^verbatim>\<open>float\<close> or a \<^verbatim>\<open>bool\<close>; an integer is rounded to a double.
\<close>

lemma converted_amounts_all:
  "\<not> list_ex (conversion_raises d) fs \<Longrightarrow>
   converted_amounts d fs =
     concat (map (\<lambda>field. case map_of d field of
                     Some (JInt n) \<Rightarrow> [of_int (sgn n * round_to_double \<bar>n\<bar>)]
                   | Some (JFloat x) \<Rightarrow> [x]
                   | Some (JBool b) \<Rightarrow> [if b then 1 else 0]
                   | _ \<Rightarrow> []) fs)"
proof (induction fs)
  case Nil
  then show ?case by simp
next
  case (Cons f fs)
  then have ih: "converted_amounts d fs =
     concat (map (\<lambda>field. case map_of d field of
                     Some (JInt n) \<Rightarrow> [of_int (sgn n * round_to_double \<bar>n\<bar>)]
                   | Some (JFloat x) \<Rightarrow> [x]
                   | Some (JBool b) \<Rightarrow> [if b then 1 else 0]
                   | _ \<Rightarrow> []) fs)"
    and f: "\<not> conversion_raises d f"
    by simp_all
  show ?case
  proof (cases "map_of d f")
    case None
    then show ?thesis by (simp add: ih numeric_field_def lookup_def)
  next
    case (Some v)
    with f show ?thesis
      by (cases v)
         (auto simp: ih numeric_field_def lookup_def conversion_raises_def float_of_int_def
               split: if_splits)
  qed
qed

lemma amount_values_all:
  "\<not> amount_overflow d \<Longrightarrow>
   amount_values d =
     concat (map (\<lambda>field. case map_of d field of
                     Some (JInt n) \<Rightarrow> [of_int (sgn n * round_to_double \<bar>n\<bar>)]
                   | Some (JFloat x) \<Rightarrow> [x]
                   | Some (JBool b) \<Rightarrow> [if b then 1 else 0]
                   | _ \<Rightarrow> []) [''amount'', ''total'', ''value'', ''price''])"
  unfolding amount_values_def amount_overflow_def amount_fields_def
  by (rule converted_amounts_all)

text \<open>
  A record with an integer amount, a float total, a value that is not a number and a
  \<^verbatim>\<open>bool\<close> for a price: after scoring, which flags it, the window has grown by
  \<open>10000000.0\<close>, \<open>99.5\<close> and \<open>1.0\<close>.
\<close>

lemma mixed_amounts_appended:
  "(\<exists>report. detect_anomalies iso_table ten_samples
       [(''amount'', JInt 10000000), (''total'', JFloat 99.5), (''value'', JStr ''n/a''),
        (''price'', JBool True)] ''webhook'' = Inr report \<and> \<not> is_normal report) \<and>
   historical_amounts
     (fst (snd (process_json sample_runtime 0 ten_samples store_up
                  [(''amount'', JInt 10000000), (''total'', JFloat 99.5),
                   (''value'', JStr ''n/a''), (''price'', JBool True)] ''webhook'')))
     ''webhook_amounts''
     = replicate 10 100 @ [10000000, 99.5, 1]"
proof -
  let ?d = "[(''amount'', JInt 10000000), (''total'', JFloat 99.5), (''value'', JStr ''n/a''),
             (''price'', JBool True)]"
  have a: "check_amount_anomaly ten_samples ?d ''webhook'' =
             Inr (Some \<lparr>anomalies = [''unusual_amount_amount''], score = 1\<rparr>)"
    by (simp add: ten_samples_def detector_defs np_mean_def np_std_def sum_list_replicate_real)
  have r: "detect_anomalies (fromisoformat sample_runtime) ten_samples ?d ''webhook'' =
     Inr \<lparr>is_normal = False, report_anomalies = [''unusual_amount_amount''], anomaly_score = 1\<rparr>"
    using a
    by (simp add: sample_runtime_def detect_anomalies_def check_pattern_anomaly_def lookup_def
          check_data_quality_def null_percentage_threshold_def check_type_anomalies_def
          expected_types_def type_mismatch_def anomaly_threshold_def
          sql_patterns_def script_patterns_def lower_def lower_char_def)
  have v: "amount_values ?d = [10000000, 99.5, 1]"
    by (simp add: amount_values_def amount_fields_def numeric_field_def lookup_def
          float_of_int_exact)
  have old: "historical_amounts ten_samples (amounts_key ''webhook'') = replicate 10 100"
    by (simp add: ten_samples_def amounts_key_def)
  from scored_record_extends_window [OF r, of 0 store_up]
  obtain kept where
    "historical_amounts
       (fst (snd (process_json sample_runtime 0 ten_samples store_up ?d ''webhook'')))
       (amounts_key ''webhook'')
     = kept @ amount_values ?d"
    "length (historical_amounts ten_samples (amounts_key ''webhook''))
              + length (amount_values ?d) \<le> 1000
            \<longrightarrow> kept = historical_amounts ten_samples (amounts_key ''webhook'')"
    by blast
  then have "historical_amounts
       (fst (snd (process_json sample_runtime 0 ten_samples store_up ?d ''webhook'')))
       ''webhook_amounts'' = replicate 10 100 @ [10000000, 99.5, 1]"
    using v old by (simp add: amounts_key_def)
  moreover have "fromisoformat sample_runtime = iso_table" by (simp add: sample_runtime_def)
  ultimately show ?thesis using r by simp
qed

text \<open>
  C9. The claim that after scoring every numeric amount field of the record is appended
  fails on \<^verbatim>\<open>{"amount": 10000000, "total": 10**400}\<close> with ten samples of 100 in the window.
  Scoring completes: the amount sub-detector returns at \<open>amount\<close>, before it converts
  \<open>total\<close>, and the report flags the record. Then \<^verbatim>\<open>_update_historical_data\<close> appends
  \<open>amount\<close>, and \<^verbatim>\<open>float(data["total"])\<close>, outside any \<^verbatim>\<open>try\<close>, raises
  \<^verbatim>\<open>OverflowError\<close>: \<open>total\<close> is not in the window, and \<^verbatim>\<open>process_json\<close> ends with the
  exception instead of the result.
\<close>

theorem large_total_is_not_appended:
  "detect_anomalies iso_table ten_samples
     [(''amount'', JInt 10000000), (''total'', JInt (10 ^ 400))] ''webhook''
     = Inr \<lparr>is_normal = False, report_anomalies = [''unusual_amount_amount''],
            anomaly_score = 1\<rparr> \<and>
   fst (process_json sample_runtime 0 ten_samples store_up
          [(''amount'', JInt 10000000), (''total'', JInt (10 ^ 400))] ''webhook'')
     = Inl (OverflowError ''int too large to convert to float'') \<and>
   historical_amounts
     (fst (snd (process_json sample_runtime 0 ten_samples store_up
                  [(''amount'', JInt 10000000), (''total'', JInt (10 ^ 400))] ''webhook'')))
     ''webhook_amounts''
     = replicate 10 100 @ [10000000]"
proof -
  define d where "d = [(''amount'', JInt 10000000), (''total'', JInt (10 ^ 400))]"
  let ?e = "OverflowError ''int too large to convert to float''"
  have n1: "numeric_field d ''amount'' = Some (Inr 10000000)"
    by (simp add: d_def numeric_field_def lookup_def float_of_int_exact)
  have n2: "numeric_field d ''total'' = Some (Inl ?e)"
    by (simp add: d_def numeric_field_def lookup_def float_of_int_def double_limit_def)
  have l: "lookup d ''timestamp'' = None" "length d = 2"
    "filter (\<lambda>(key, v). is_null_value v) d = []" "scan_strings d ([], 0) = ([], 0)"
    "filter (type_mismatch d) expected_types = []"
    by (simp_all add: d_def lookup_def expected_types_def type_mismatch_def)
  have a: "check_amount_anomaly ten_samples d ''webhook'' =
             Inr (Some \<lparr>anomalies = [''unusual_amount_amount''], score = 1\<rparr>)"
    by (simp add: check_amount_anomaly_def amount_fields_def n1 ten_samples_def
          new_JSONAgent_def amounts_key_def min_samples_def threshold_multiplier_def
          amount_score_def np_mean_def np_std_def sum_list_replicate_real)
  have r: "detect_anomalies iso_table ten_samples d ''webhook'' =
     Inr \<lparr>is_normal = False, report_anomalies = [''unusual_amount_amount''], anomaly_score = 1\<rparr>"
    by (simp add: detect_anomalies_def a l check_pattern_anomaly_def
          check_data_quality_def null_percentage_threshold_def check_type_anomalies_def
          anomaly_threshold_def)
  have u: "update_historical_data iso_table ten_samples d ''webhook'' =
     (ten_samples\<lparr>historical_amounts :=
        (historical_amounts ten_samples)
          (''webhook_amounts'' := replicate 10 100 @ [10000000])\<rparr>, Some ?e)"
    by (simp add: update_historical_data_def amount_fields_def n1 n2 ten_samples_def
          new_JSONAgent_def amounts_key_def append_capped_def Let_def)
  have c: "combine_results (validate_schema sample_runtime d ''webhook'')
             \<lparr>is_normal = False, report_anomalies = [''unusual_amount_amount''],
              anomaly_score = 1\<rparr>
           = Inr \<lparr>is_valid = False,
                  schema_errors = schema_errors (validate_schema sample_runtime d ''webhook''),
                  result_anomalies = [''unusual_amount_amount''], result_anomaly_score = 1,
                  missing_fields = missing_fields (validate_schema sample_runtime d ''webhook''),
                  type_errors = type_errors (validate_schema sample_runtime d ''webhook'')\<rparr>"
    by (simp add: combine_results_def new_JSONValidationResult_def)
  have f: "fromisoformat sample_runtime = iso_table" by (simp add: sample_runtime_def)
  have p: "process_json sample_runtime 0 ten_samples store_up d ''webhook'' =
     (Inl ?e,
      ten_samples\<lparr>historical_amounts :=
        (historical_amounts ten_samples)
          (''webhook_amounts'' := replicate 10 100 @ [10000000])\<rparr>,
      store_up)"
    unfolding process_json_def f by (simp add: r c u Let_def)
  have "detect_anomalies iso_table ten_samples d ''webhook''
     = Inr \<lparr>is_normal = False, report_anomalies = [''unusual_amount_amount''],
            anomaly_score = 1\<rparr> \<and>
   fst (process_json sample_runtime 0 ten_samples store_up d ''webhook'')
     = Inl (OverflowError ''int too large to convert to float'') \<and>
   historical_amounts
     (fst (snd (process_json sample_runtime 0 ten_samples store_up d ''webhook'')))
     ''webhook_amounts''
     = replicate 10 100 @ [10000000]"
    using r by (simp add: p)
  then show ?thesis unfolding d_def .
qed

subsection \<open>The retry loop of the router\<close>

lemmas router_defs =
  route_action_def route_failed_def draw_uuid_def execute_with_retry_def asyncio_sleep_def
  get_memory_store_def increment_counter_def new_ActionRouter_def handle_log_and_close_def
  store_entry_dict_def flaky_router_def flaky_handler_def sample_request_def world_up_def
  world_down_def store_up_def store_down_def sample_runtime_def Let_def

lemma three_Suc: "(3::nat) = Suc (Suc (Suc 0))"
  by simp

lemma three_attempts:
  assumes "retry_attempts router = 3"
  shows "execute_with_retry router h req w =
     (case h w req of
        (Inr r, w1) \<Rightarrow> (Inr r, w1)
      | (Inl e1, w1) \<Rightarrow>
          (case h (asyncio_sleep (retry_delay router * 1) w1) req of
             (Inr r, w2) \<Rightarrow> (Inr r, w2)
           | (Inl e2, w2) \<Rightarrow>
               (case h (asyncio_sleep (retry_delay router * 2) w2) req of
                  (Inr r, w3) \<Rightarrow> (Inr r, w3)
                | (Inl e3, w3) \<Rightarrow> (Inl e3, w3))))"
proof -
  have 3: "(3::nat) = Suc (Suc (Suc 0))" by simp
  show ?thesis
    unfolding execute_with_retry_def assms
    by (simp add: 3 assms split: prod.splits sum.splits)
qed

lemma exhausted_retries:
  assumes "retry_attempts router = 3"
      and "h w req = (Inl e1, w1)"
      and "h (asyncio_sleep (retry_delay router * 1) w1) req = (Inl e2, w2)"
      and "h (asyncio_sleep (retry_delay router * 2) w2) req = (Inl e3, w3)"
  shows "execute_with_retry router h req w = (Inl e3, w3)"
  using assms(2-4) by (simp add: three_attempts[OF assms(1)])

lemma third_attempt:
  assumes "retry_attempts router = 3"
      and "h w req = (Inl e1, w1)"
      and "h (asyncio_sleep (retry_delay router * 1) w1) req = (Inl e2, w2)"
      and "h (asyncio_sleep (retry_delay router * 2) w2) req = (Inr response, w3)"
  shows "execute_with_retry router h req w = (Inr response, w3)"
  using assms(2-4) by (simp add: three_attempts[OF assms(1)])

text \<open>
  When the handler fails on each of the three attempts and the memory store can be
  fetched afterwards, \<^verbatim>\<open>route_action\<close> returns one failed result that carries the error
  of the third attempt; the router has waited once and twice the delay in between.
\<close>

lemma exhausted_retries_give_one_failed_result:
  assumes "action_handlers router (action_type req) = Some h"
      and "retry_attempts router = 3"
      and "h (snd (draw_uuid rt w)) req = (Inl e1, w1)"
      and "h (asyncio_sleep (retry_delay router * 1) w1) req = (Inl e2, w2)"
      and "h (asyncio_sleep (retry_delay router * 2) w2) req = (Inl e3, w3)"
      and "get_memory_store (store w3) = Inr ms"
  shows "route_action rt router req w =
           (Inr \<lparr>action_id = uuid4 rt (drawn w), result_action_type = action_type req,
                  status = ''failed'', response_data = None,
                  error_message = Some (str_exn e3), result_timestamp = now w3,
                  execution_time_ms = Some ((now w3 - now w) * 1000)\<rparr>,
            w3\<lparr>store := increment_counter ms ''actions_failed''\<rparr>)"
proof -
  have "execute_with_retry router h req (snd (draw_uuid rt w)) = (Inl e3, w3)"
    using assms(2-5) by (rule exhausted_retries[where h = h and w = "snd (draw_uuid rt w)"])
  then show ?thesis
    using assms(1,6)
    by (simp add: route_action_def route_failed_def draw_uuid_def Let_def)
qed

text \<open>
  The registered \<open>log_and_close\<close> handler is such a handler: it fails on every attempt.
\<close>

lemma log_and_close_fails_with_store:
  "route_action sample_runtime (new_ActionRouter sample_runtime)
       (sample_request LOG_AND_CLOSE) world_up =
     (Inr \<lparr>action_id = ''u'', result_action_type = LOG_AND_CLOSE,
            status = ''failed'', response_data = None,
            error_message = Some (quoted ''dict'' @ '' object has no attribute '' @ quoted ''key''),
            result_timestamp = 3, execution_time_ms = Some 3000\<rparr>,
      \<lparr>now = 3, slept = [1, 2], drawn = 4,
       store = increment_counter store_up ''actions_failed''\<rparr>)"
proof -
  let ?rt = sample_runtime
  let ?req = "sample_request LOG_AND_CLOSE"
  let ?h = "handle_log_and_close ?rt"
  let ?e = "no_attribute ''dict'' ''key''"
  let ?w1 = "\<lparr>now = 0, slept = [], drawn = 2, store = store_up\<rparr>"
  let ?w2 = "\<lparr>now = 1, slept = [1], drawn = 3, store = store_up\<rparr>"
  let ?w3 = "\<lparr>now = 3, slept = [1, 2], drawn = 4, store = store_up\<rparr>"
  have r: "action_handlers (new_ActionRouter ?rt) (action_type ?req) = Some ?h"
    by (simp add: new_ActionRouter_def sample_request_def)
  have n: "retry_attempts (new_ActionRouter ?rt) = 3"
    by (simp add: new_ActionRouter_def)
  have a1: "?h (snd (draw_uuid ?rt world_up)) ?req = (Inl ?e, ?w1)"
    by (simp add: router_defs)
  have a2: "?h (asyncio_sleep (retry_delay (new_ActionRouter ?rt) * 1) ?w1) ?req = (Inl ?e, ?w2)"
    by (simp add: router_defs)
  have a3: "?h (asyncio_sleep (retry_delay (new_ActionRouter ?rt) * 2) ?w2) ?req = (Inl ?e, ?w3)"
    by (simp add: router_defs)
  have m: "get_memory_store (store ?w3) = Inr store_up"
    by (simp add: get_memory_store_def store_up_def)
  from exhausted_retries_give_one_failed_result [OF r n a1 a2 a3 m]
  show ?thesis
    by (simp add: sample_request_def sample_runtime_def world_up_def no_attribute_def)
qed

text \<open>
  C4. The claim that \<^verbatim>\<open>route_action\<close> never raises past its boundary fails when the
  memory store is not connected and the server cannot be reached: the \<open>log_and_close\<close>
  handler fails on all three attempts, and the \<^verbatim>\<open>except\<close> branch, which fetches the
  store for its counter outside any \<^verbatim>\<open>try\<close>, raises the connection error instead of
  returning the failed result.
\<close>

theorem route_action_raises_when_store_is_down:
  "route_action sample_runtime (new_ActionRouter sample_runtime)
       (sample_request LOG_AND_CLOSE) world_down =
     (Inl (ConnectionError ''Error connecting to Redis''),
      \<lparr>now = 3, slept = [1, 2], drawn = 4, store = store_down\<rparr>)"
  by (simp add: router_defs three_Suc)

subsection \<open>Success on the third attempt\<close>

text \<open>
  When the handler fails on the first two attempts and succeeds on the third, and the
  memory store can be fetched afterwards, \<^verbatim>\<open>route_action\<close> returns one result with status
  \<open>success\<close> and the response of the third attempt. Its \<open>execution_time_ms\<close> is the time
  from the call to the end of the third attempt, which holds the three attempts and the two
  waits of once and twice \<open>retry_delay\<close> between them.
\<close>

lemma third_attempt_succeeds_with_store:
  assumes "action_handlers router (action_type req) = Some h"
      and "retry_attempts router = 3"
      and "h (snd (draw_uuid rt w)) req = (Inl e1, w1)"
      and "h (asyncio_sleep (retry_delay router * 1) w1) req = (Inl e2, w2)"
      and "h (asyncio_sleep (retry_delay router * 2) w2) req = (Inr response, w3)"
      and "get_memory_store (store w3) = Inr ms"
  shows "route_action rt router req w =
           (Inr \<lparr>action_id = uuid4 rt (drawn w), result_action_type = action_type req,
                  status = ''success'', response_data = Some response,
                  error_message = None, result_timestamp = now w3,
                  execution_time_ms = Some ((now w3 - now w) * 1000)\<rparr>,
            w3\<lparr>store := increment_counter ms ''actions_executed''\<rparr>)"
proof -
  have e: "execute_with_retry router h req (snd (draw_uuid rt w)) = (Inr response, w3)"
    using assms(2-5) by (rule third_attempt[where h = h and w = "snd (draw_uuid rt w)"])
  show ?thesis
    using e assms(1,6)
    by (simp add: route_action_def draw_uuid_def Let_def)
qed

lemma flaky_escalation_with_store:
  "route_action sample_runtime flaky_router (sample_request ESCALATE) world_up =
     (Inr \<lparr>action_id = ''u'', result_action_type = ESCALATE,
            status = ''success'', response_data = Some [(''status_code'', JInt 200)],
            error_message = None, result_timestamp = 15 / 4,
            execution_time_ms = Some 3750\<rparr>,
      \<lparr>now = 15 / 4, slept = [1, 2], drawn = 1,
       store = increment_counter store_up ''actions_executed''\<rparr>)"
proof -
  let ?rt = sample_runtime
  let ?req = "sample_request ESCALATE"
  let ?e = "HandlerError ''service unavailable''"
  let ?w1 = "\<lparr>now = 1 / 4, slept = [], drawn = 1, store = store_up\<rparr>"
  let ?w2 = "\<lparr>now = 3 / 2, slept = [1], drawn = 1, store = store_up\<rparr>"
  let ?w3 = "\<lparr>now = 15 / 4, slept = [1, 2], drawn = 1, store = store_up\<rparr>"
  have r: "action_handlers flaky_router (action_type ?req) = Some flaky_handler"
    by (simp add: flaky_router_def sample_request_def)
  have n: "retry_attempts flaky_router = 3" by (simp add: flaky_router_def)
  have a1: "flaky_handler (snd (draw_uuid ?rt world_up)) ?req = (Inl ?e, ?w1)"
    by (simp add: router_defs)
  have a2: "flaky_handler (asyncio_sleep (retry_delay flaky_router * 1) ?w1) ?req = (Inl ?e, ?w2)"
    by (simp add: router_defs)
  have a3: "flaky_handler (asyncio_sleep (retry_delay flaky_router * 2) ?w2) ?req
              = (Inr [(''status_code'', JInt 200)], ?w3)"
    by (simp add: router_defs)
  have m: "get_memory_store (store ?w3) = Inr store_up"
    by (simp add: get_memory_store_def store_up_def)
  from third_attempt_succeeds_with_store [OF r n a1 a2 a3 m]
  show ?thesis
    by (simp add: sample_request_def sample_runtime_def world_up_def)
qed

text \<open>
  C8. The claim that a handler which fails twice and succeeds on the third attempt gives a
  result with status \<open>success\<close> fails when the memory store is not connected and the server
  cannot be reached. The retry loop returns the response of the third attempt after the
  waits of 1 and 2 seconds; then \<^verbatim>\<open>route_action\<close> fetches the store for its counter, the
  connection error sends it to the \<^verbatim>\<open>except\<close> branch, and the branch fetches the store
  again outside any \<^verbatim>\<open>try\<close>: the connection error leaves \<^verbatim>\<open>route_action\<close> and the
  response is lost. This is the unprotected call of C4.
\<close>

theorem third_attempt_success_lost_when_store_is_down:
  "execute_with_retry flaky_router flaky_handler (sample_request ESCALATE)
       (snd (draw_uuid sample_runtime world_down)) =
     (Inr [(''status_code'', JInt 200)],
      \<lparr>now = 15 / 4, slept = [1, 2], drawn = 1, store = store_down\<rparr>) \<and>
   route_action sample_runtime flaky_router (sample_request ESCALATE) world_down =
     (Inl (ConnectionError ''Error connecting to Redis''),
      \<lparr>now = 15 / 4, slept = [1, 2], drawn = 1, store = store_down\<rparr>)"
  by (simp add: router_defs three_Suc)

subsection \<open>A request of a type without a handler\<close>

text \<open>
  When no handler is registered for the type of the request and the memory store can be
  fetched, \<^verbatim>\<open>route_action\<close> returns one failed result at once: the result carries the
  message of the \<^verbatim>\<open>ValueError\<close>, the clock has not moved, nothing was waited for, and the
  world differs only in the identifier drawn and the failure counter.
\<close>

lemma unknown_action_type_fails_with_store:
  assumes "action_handlers router (action_type req) = None"
      and "get_memory_store (store w) = Inr ms"
  shows "route_action rt router req w =
           (Inr \<lparr>action_id = uuid4 rt (drawn w), result_action_type = action_type req,
                  status = ''failed'', response_data = None,
                  error_message =
                    Some (''No handler found for action type: ''
                          @ format_action_type rt (action_type req)),
                  result_timestamp = now w,
                  execution_time_ms = Some 0\<rparr>,
            w\<lparr>drawn := Suc (drawn w), store := increment_counter ms ''actions_failed''\<rparr>)"
  using assms by (simp add: route_action_def route_failed_def draw_uuid_def Let_def)

lemma unknown_ticket_with_store:
  "route_action sample_runtime flaky_router (sample_request CREATE_TICKET) world_up =
     (Inr \<lparr>action_id = ''u'', result_action_type = CREATE_TICKET,
            status = ''failed'', response_data = None,
            error_message = Some ''No handler found for action type: ActionType.CREATE_TICKET'',
            result_timestamp = 0, execution_time_ms = Some 0\<rparr>,
      \<lparr>now = 0, slept = [], drawn = 1,
       store = increment_counter store_up ''actions_failed''\<rparr>)"
proof -
  have r: "action_handlers flaky_router (action_type (sample_request CREATE_TICKET)) = None"
    by (simp add: flaky_router_def sample_request_def)
  have m: "get_memory_store (store world_up) = Inr store_up"
    by (simp add: get_memory_store_def store_up_def world_up_def)
  from unknown_action_type_fails_with_store [OF r m, of sample_runtime]
  show ?thesis
    by (simp add: sample_request_def sample_runtime_def world_up_def)
qed

text \<open>
  C10. The claim that a request whose type has no handler gives a failed result at once
  fails when the memory store is not connected and the server cannot be reached: the
  \<^verbatim>\<open>ValueError\<close> is caught, nothing is retried or waited for, and the \<^verbatim>\<open>except\<close> branch,
  which fetches the store for its counter outside any \<^verbatim>\<open>try\<close>, raises the connection
  error instead of returning the failed result. This is the unprotected call of C4.
\<close>

theorem unknown_action_type_raises_when_store_is_down:
  "action_handlers flaky_router (action_type (sample_request CREATE_TICKET)) = None \<and>
   route_action sample_runtime flaky_router (sample_request CREATE_TICKET) world_down =
     (Inl (ConnectionError ''Error connecting to Redis''),
      \<lparr>now = 0, slept = [], drawn = 1, store = store_down\<rparr>)"
  by (simp add: router_defs)

end
